theory Spec2Isabelle
  imports Main "HOL-Library.Finite_Map" "HOL-Library.Word"
begin

unbundle bit_operations_syntax

chapter \<open>Thinking-signature error recovery of CLIProxyAPI\<close>

text \<open>
  A shallow embedding of the signature-error resilience code: the blacklist of invalid
  signatures (package \<open>cache\<close>), the helpers of package \<open>executor\<close> (session
  identifier, error classifiers, payload sanitizers, recovery wrappers) and the streaming
  fallback of package \<open>handlers\<close>. The definitions come first, the proofs follow.
\<close>

section \<open>The signature blacklist (\<open>internal/cache/invalid_signature_cache.go\<close>)\<close>

text \<open>
  Instants and durations are integers counting nanoseconds. Every function that reads
  \<open>time.Now()\<close> takes the instant it reads as the argument \<open>now\<close>. The \<open>sync.Map\<close> and
  the per-session \<open>map[string]time.Time\<close> are finite maps; locks are not modelled, each
  operation is atomic. The ticker that \<open>getOrCreateInvalidSession\<close> starts once is not
  part of the state: its effect is a call of \<open>purgeExpiredInvalidSignatures\<close> at some
  instant between two operations.
\<close>

definition InvalidSignatureCacheTTL :: int where
  "InvalidSignatureCacheTTL = 3 * (3600 * 1000000000)"

definition InvalidSignatureCleanupInterval :: int where
  "InvalidSignatureCleanupInterval = 10 * (60 * 1000000000)"

record sessionInvalidCache =
  entries :: "(string, int) fmap"

type_synonym invalidSignatureCache = "(string, sessionInvalidCache) fmap"

definition getOrCreateInvalidSession ::
  "invalidSignatureCache \<Rightarrow> string \<Rightarrow> invalidSignatureCache \<times> sessionInvalidCache" where
  "getOrCreateInvalidSession c sessionID =
     (case fmlookup c sessionID of
        Some sc \<Rightarrow> (c, sc)
      | None \<Rightarrow> (fmupd sessionID \<lparr>entries = fmempty\<rparr> c, \<lparr>entries = fmempty\<rparr>))"

definition CacheInvalidSignature ::
  "invalidSignatureCache \<Rightarrow> string \<Rightarrow> string \<Rightarrow> int \<Rightarrow> invalidSignatureCache" where
  "CacheInvalidSignature c sessionID signature now =
     (if sessionID = [] \<or> signature = [] then c
      else (case getOrCreateInvalidSession c sessionID of
              (c', sc) \<Rightarrow>
                fmupd sessionID (sc\<lparr>entries := fmupd signature now (entries sc)\<rparr>) c'))"

definition IsInvalidSignature ::
  "invalidSignatureCache \<Rightarrow> string \<Rightarrow> string \<Rightarrow> int \<Rightarrow> bool" where
  "IsInvalidSignature c sessionID signature now =
     (if sessionID = [] \<or> signature = [] then False
      else (case fmlookup c sessionID of
              None \<Rightarrow> False
            | Some sc \<Rightarrow>
                (case fmlookup (entries sc) signature of
                   None \<Rightarrow> False
                 | Some ts \<Rightarrow> now - ts \<le> InvalidSignatureCacheTTL)))"

definition ClearInvalidSignatureCache ::
  "invalidSignatureCache \<Rightarrow> string \<Rightarrow> invalidSignatureCache" where
  "ClearInvalidSignatureCache c sessionID =
     (if sessionID \<noteq> [] then fmdrop sessionID c
      else fmfilter (\<lambda>key. False) c)"

text \<open>One pass of the sweep over a single session: the expired entries are deleted.\<close>

definition purgeSession :: "int \<Rightarrow> sessionInvalidCache \<Rightarrow> sessionInvalidCache" where
  "purgeSession now sc =
     sc\<lparr>entries :=
          fmfilter (\<lambda>sig. case fmlookup (entries sc) sig of
                             Some ts \<Rightarrow> \<not> (now - ts > InvalidSignatureCacheTTL)
                           | None \<Rightarrow> False)
            (entries sc)\<rparr>"

text \<open>The sweep ranges over all sessions and deletes those left empty.\<close>

definition purgeExpiredInvalidSignatures ::
  "invalidSignatureCache \<Rightarrow> int \<Rightarrow> invalidSignatureCache" where
  "purgeExpiredInvalidSignatures c now =
     fmfilter (\<lambda>key. case fmlookup c key of
                       Some sc \<Rightarrow> entries (purgeSession now sc) \<noteq> fmempty
                     | None \<Rightarrow> False)
       (fmmap (purgeSession now) c)"

text \<open>
  The states of the cache: it starts empty and changes only through the three operations.
\<close>

inductive reachable :: "invalidSignatureCache \<Rightarrow> bool" where
  at_start: "reachable fmempty"
| after_record: "reachable c \<Longrightarrow> reachable (CacheInvalidSignature c sessionID signature now)"
| after_clear: "reachable c \<Longrightarrow> reachable (ClearInvalidSignatureCache c sessionID)"
| after_sweep: "reachable c \<Longrightarrow> reachable (purgeExpiredInvalidSignatures c now)"

text \<open>
  The data model in the words of the specification: an entry
  \<open>(session key, signature) \<mapsto> timestamp\<close>, and a signature counts as blacklisted when
  an entry exists and \<open>now - timestamp \<le> TTL\<close>.
\<close>

definition entry :: "invalidSignatureCache \<Rightarrow> string \<Rightarrow> string \<Rightarrow> int option" where
  "entry c s g = (case fmlookup c s of None \<Rightarrow> None | Some sc \<Rightarrow> fmlookup (entries sc) g)"

definition entry_within_TTL :: "invalidSignatureCache \<Rightarrow> string \<Rightarrow> string \<Rightarrow> int \<Rightarrow> bool" where
  "entry_within_TTL c s g now =
     (case entry c s g of None \<Rightarrow> False | Some ts \<Rightarrow> now - ts \<le> InvalidSignatureCacheTTL)"


section \<open>JSON documents as \<open>gjson\<close> and \<open>sjson\<close> read and write them\<close>

text \<open>
  A request payload is modelled by the JSON document its bytes hold. An object keeps its
  members in source order, duplicates included; a number is kept as its text.
\<close>

datatype json =
    JNull
  | JBool bool
  | JNumber string
  | JString string
  | JArray "json list"
  | JObject "(string \<times> json) list"

subsection \<open>Decimal numerals (\<open>%d\<close> of \<open>fmt.Sprintf\<close>, \<open>parseUint\<close> of \<open>gjson\<close>)\<close>

definition is_digit :: "char \<Rightarrow> bool" where
  "is_digit c = (48 \<le> (of_char c :: nat) \<and> (of_char c :: nat) \<le> 57)"

definition digit_val :: "char \<Rightarrow> nat" where
  "digit_val c = of_char c - 48"

definition digit_char :: "nat \<Rightarrow> char" where
  "digit_char d = ''0123456789'' ! d"

fun itoa :: "nat \<Rightarrow> string" where
  "itoa n = (if n < 10 then [digit_char n] else itoa (n div 10) @ [digit_char (n mod 10)])"

declare itoa.simps [simp del]

fun parse_digits :: "nat \<Rightarrow> string \<Rightarrow> nat option" where
  "parse_digits n [] = Some n"
| "parse_digits n (c # cs) =
     (if is_digit c then parse_digits (n * 10 + digit_val c) cs else None)"

definition parseUint :: "string \<Rightarrow> nat option" where
  "parseUint s = (if s = [] then None else parse_digits 0 s)"

subsection \<open>The raw text of a value\<close>

text \<open>
  \<open>Result.Raw\<close> is the source text of a value, with the white space and the escape
  sequences of the source. The model renders the compact form, a quotation mark or
  backslash inside a string escaped by a backslash: the source text of a document that is
  written without white space and whose strings hold no control character and no other
  escape sequence. The documents evaluated below are of that form.
\<close>

fun escape :: "string \<Rightarrow> string" where
  "escape [] = []"
| "escape (c # cs) =
     (if c = CHR 0x22 \<or> c = CHR 0x5C then CHR 0x5C # c # escape cs else c # escape cs)"

definition quote :: "string \<Rightarrow> string" where
  "quote s = CHR 0x22 # escape s @ [CHR 0x22]"

fun join :: "string \<Rightarrow> string list \<Rightarrow> string" where
  "join sep [] = []"
| "join sep [x] = x"
| "join sep (x # y # ys) = x @ sep @ join sep (y # ys)"

fun raw :: "json \<Rightarrow> string" where
  "raw JNull = ''null''"
| "raw (JBool b) = (if b then ''true'' else ''false'')"
| "raw (JNumber n) = n"
| "raw (JString s) = quote s"
| "raw (JArray xs) = ''['' @ join '','' (map raw xs) @ '']''"
| "raw (JObject kvs) =
     ''{'' @ join '','' (map (\<lambda>(k, v). quote k @ '':'' @ raw v) kvs) @ ''}''"

subsection \<open>\<open>gjson\<close>: reading\<close>

text \<open>
  A \<open>gjson.Result\<close> is a value or nothing (\<open>None\<close>, the result that does not exist).
  A path is the list of its dot-separated components. On an object a component selects
  the first member of that name; on an array it selects by index when it is a decimal
  numeral; a scalar has no members. The paths of the code are plain names and indices;
  wildcards, queries and modifiers of \<open>gjson\<close> do not occur and are not modelled.
\<close>

fun Get1 :: "json \<Rightarrow> string \<Rightarrow> json option" where
  "Get1 (JObject kvs) k = map_of kvs k"
| "Get1 (JArray xs) k =
     (case parseUint k of
        Some n \<Rightarrow> if n < length xs then Some (xs ! n) else None
      | None \<Rightarrow> None)"
| "Get1 _ k = None"

fun Get :: "json option \<Rightarrow> string list \<Rightarrow> json option" where
  "Get r [] = r"
| "Get None (k # ks) = None"
| "Get (Some v) (k # ks) = Get (Get1 v k) ks"

text \<open>
  \<open>Result.String()\<close>: the string itself, the text of a number or a boolean, the raw
  text of an object or array, and the empty string for null and for a missing result.
  (For a number that is not written as a plain integer \<open>gjson\<close> prints its float value;
  a number stands here for the text that \<open>String()\<close> gives.)
\<close>

fun String_of :: "json option \<Rightarrow> string" where
  "String_of None = []"
| "String_of (Some JNull) = []"
| "String_of (Some (JBool b)) = (if b then ''true'' else ''false'')"
| "String_of (Some (JNumber n)) = n"
| "String_of (Some (JString s)) = s"
| "String_of (Some v) = raw v"

fun IsArray :: "json option \<Rightarrow> bool" where
  "IsArray (Some (JArray xs)) = True"
| "IsArray _ = False"

text \<open>
  \<open>Result.Array()\<close>: the elements of an array, nothing for null or a missing result, and
  the value itself as the only element otherwise.
\<close>

fun Array_of :: "json option \<Rightarrow> json list" where
  "Array_of None = []"
| "Array_of (Some JNull) = []"
| "Array_of (Some (JArray xs)) = xs"
| "Array_of (Some v) = [v]"

subsection \<open>\<open>sjson\<close>: writing\<close>

text \<open>
  \<open>sjson\<close> locates the place to write with \<open>gjson\<close>: the first member of the name in an
  object, which it replaces or else appends, and the index in an array, which it replaces
  or, one past the end, appends. The result is \<open>None\<close> where \<open>sjson\<close> reports an error or
  would create intermediate containers; no call of the code modelled here gets there.
\<close>

fun set_first :: "(string \<times> json) list \<Rightarrow> string \<Rightarrow> json \<Rightarrow> (string \<times> json) list" where
  "set_first [] k v = [(k, v)]"
| "set_first ((k', v') # kvs) k v =
     (if k' = k then (k, v) # kvs else (k', v') # set_first kvs k v)"

fun sjson_Set :: "json \<Rightarrow> string list \<Rightarrow> json \<Rightarrow> json option" where
  "sjson_Set doc [] v = None"
| "sjson_Set (JObject kvs) [k] v = Some (JObject (set_first kvs k v))"
| "sjson_Set (JObject kvs) (k # k' # ks) v =
     (case map_of kvs k of
        Some child \<Rightarrow>
          (case sjson_Set child (k' # ks) v of
             Some child' \<Rightarrow> Some (JObject (set_first kvs k child'))
           | None \<Rightarrow> None)
      | None \<Rightarrow> None)"
| "sjson_Set (JArray xs) [k] v =
     (case parseUint k of
        Some n \<Rightarrow>
          if n < length xs then Some (JArray (xs[n := v]))
          else if n = length xs then Some (JArray (xs @ [v]))
          else None
      | None \<Rightarrow> None)"
| "sjson_Set (JArray xs) (k # k' # ks) v =
     (case parseUint k of
        Some n \<Rightarrow>
          if n < length xs then
            (case sjson_Set (xs ! n) (k' # ks) v of
               Some child' \<Rightarrow> Some (JArray (xs[n := child']))
             | None \<Rightarrow> None)
          else None
      | None \<Rightarrow> None)"
| "sjson_Set _ (k # ks) v = None"

text \<open>
  The code drops the error of \<open>sjson\<close> (\<open>payload, _ = sjson.SetRawBytes(...)\<close>) and goes on
  with the bytes returned, which are empty after an error; an empty document reads as
  \<open>JNull\<close> does.
\<close>

definition Set_dropping_error :: "json \<Rightarrow> string list \<Rightarrow> json \<Rightarrow> json" where
  "Set_dropping_error doc path v =
     (case sjson_Set doc path v of Some doc' \<Rightarrow> doc' | None \<Rightarrow> JNull)"


section \<open>The payload sanitizers (\<open>antigravity_thinking_helpers.go\<close>)\<close>

text \<open>\<open>thinkingPlaceholder\<close>, the document of the constant's JSON text.\<close>

definition thinkingPlaceholder :: json where
  "thinkingPlaceholder =
     JObject [(''type'', JString ''text''),
              (''text'', JString ''[Previous thinking omitted due to invalid signature]'')]"

text \<open>
  The inner \<open>content.ForEach\<close> of \<open>replaceThinkingBlocks\<close>: \<open>cIdx\<close> counts the parts
  visited, the state is the pair of the captured variables \<open>payload\<close> and \<open>changed\<close>. The
  parts come from the payload as it was on entry, the writes go to the current one.
  A nil predicate is \<open>None\<close>.
\<close>

fun replace_content_ForEach ::
  "(string \<Rightarrow> bool) option \<Rightarrow> nat \<Rightarrow> nat \<Rightarrow> json list \<Rightarrow> json \<times> bool \<Rightarrow> json \<times> bool" where
  "replace_content_ForEach shouldReplace mIdx cIdx [] st = st"
| "replace_content_ForEach shouldReplace mIdx cIdx (part # parts) (payload, changed) =
     (if String_of (Get1 part ''type'') \<noteq> ''thinking'' then
        replace_content_ForEach shouldReplace mIdx (Suc cIdx) parts (payload, changed)
      else if (case shouldReplace of
                 Some f \<Rightarrow> \<not> f (String_of (Get1 part ''signature''))
               | None \<Rightarrow> False) then
        replace_content_ForEach shouldReplace mIdx (Suc cIdx) parts (payload, changed)
      else
        replace_content_ForEach shouldReplace mIdx (Suc cIdx) parts
          (Set_dropping_error payload [''messages'', itoa mIdx, ''content'', itoa cIdx]
             thinkingPlaceholder, True))"

text \<open>The outer \<open>messages.ForEach\<close>.\<close>

fun replace_messages_ForEach ::
  "(string \<Rightarrow> bool) option \<Rightarrow> nat \<Rightarrow> json list \<Rightarrow> json \<times> bool \<Rightarrow> json \<times> bool" where
  "replace_messages_ForEach shouldReplace mIdx [] st = st"
| "replace_messages_ForEach shouldReplace mIdx (msg # msgs) st =
     (let content = Get1 msg ''content'' in
      if \<not> IsArray content then replace_messages_ForEach shouldReplace (Suc mIdx) msgs st
      else replace_messages_ForEach shouldReplace (Suc mIdx) msgs
             (replace_content_ForEach shouldReplace mIdx 0 (Array_of content) st))"

definition replaceThinkingBlocks :: "json \<Rightarrow> (string \<Rightarrow> bool) option \<Rightarrow> json \<times> bool" where
  "replaceThinkingBlocks payload shouldReplace =
     (let messages = Get1 payload ''messages'' in
      if \<not> IsArray messages then (payload, False)
      else replace_messages_ForEach shouldReplace 0 (Array_of messages) (payload, False))"

text \<open>
  The sanitizers read the blacklist; the cache and the instant are arguments. One instant
  stands for the whole pass over the payload.
\<close>

definition sanitizeClaudePayloadForInvalidThinking ::
  "invalidSignatureCache \<Rightarrow> int \<Rightarrow> json \<Rightarrow> string \<Rightarrow> json \<times> bool" where
  "sanitizeClaudePayloadForInvalidThinking c now payload sessionID =
     (if sessionID = [] then (payload, False)
      else replaceThinkingBlocks payload
             (Some (\<lambda>sig. sig \<noteq> [] \<and> IsInvalidSignature c sessionID sig now)))"

definition stripClaudeThinkingBlocksForRetry :: "json \<Rightarrow> json \<times> bool" where
  "stripClaudeThinkingBlocksForRetry payload = replaceThinkingBlocks payload None"

text \<open>
  The Antigravity copies. The two closures of \<open>replaceAntigravityThinkingBlocks\<close> are,
  word for word, those of \<open>replaceThinkingBlocks\<close>.
\<close>

definition replaceAntigravityThinkingBlocks ::
  "json \<Rightarrow> (string \<Rightarrow> bool) option \<Rightarrow> json \<times> bool" where
  "replaceAntigravityThinkingBlocks payload shouldReplace =
     (let messages = Get1 payload ''messages'' in
      if \<not> IsArray messages then (payload, False)
      else replace_messages_ForEach shouldReplace 0 (Array_of messages) (payload, False))"

definition sanitizeAntigravityPayloadForInvalidThinking ::
  "invalidSignatureCache \<Rightarrow> int \<Rightarrow> json \<Rightarrow> string \<Rightarrow> json \<times> bool" where
  "sanitizeAntigravityPayloadForInvalidThinking c now payload sessionID =
     (if sessionID = [] then (payload, False)
      else replaceAntigravityThinkingBlocks payload
             (Some (\<lambda>sig. sig \<noteq> [] \<and> IsInvalidSignature c sessionID sig now)))"

definition stripAntigravityThinkingBlocksForRetry :: "json \<Rightarrow> json \<times> bool" where
  "stripAntigravityThinkingBlocksForRetry payload = replaceAntigravityThinkingBlocks payload None"

subsection \<open>The sanitizers in the words of the specification\<close>

text \<open>
  The content blocks of a payload are the elements of the \<open>content\<close> array of each element
  of its \<open>messages\<close> array, in order. A thinking block is a block whose \<open>type\<close> reads
  \<open>thinking\<close>. \<open>map_blocks f\<close> puts \<open>f block\<close> in the place of every content block and
  leaves everything else of the payload as it is.
\<close>

definition is_thinking :: "json \<Rightarrow> bool" where
  "is_thinking part = (String_of (Get1 part ''type'') = ''thinking'')"

definition signature_of :: "json \<Rightarrow> string" where
  "signature_of part = String_of (Get1 part ''signature'')"

definition blacklisted_thinking ::
  "invalidSignatureCache \<Rightarrow> string \<Rightarrow> int \<Rightarrow> json \<Rightarrow> bool" where
  "blacklisted_thinking c sessionID now part =
     (is_thinking part \<and> IsInvalidSignature c sessionID (signature_of part) now)"

definition selected :: "(string \<Rightarrow> bool) option \<Rightarrow> json \<Rightarrow> bool" where
  "selected shouldReplace part =
     (is_thinking part \<and>
      (case shouldReplace of Some f \<Rightarrow> f (signature_of part) | None \<Rightarrow> True))"

definition substitute :: "(json \<Rightarrow> bool) \<Rightarrow> json \<Rightarrow> json" where
  "substitute P part = (if P part then thinkingPlaceholder else part)"

definition content_of :: "json \<Rightarrow> json list" where
  "content_of msg = (case Get1 msg ''content'' of Some (JArray parts) \<Rightarrow> parts | _ \<Rightarrow> [])"

definition messages_of :: "json \<Rightarrow> json list" where
  "messages_of payload =
     (case Get1 payload ''messages'' of Some (JArray msgs) \<Rightarrow> msgs | _ \<Rightarrow> [])"

definition content_blocks :: "json \<Rightarrow> json list" where
  "content_blocks payload = concat (map content_of (messages_of payload))"

definition map_content :: "(json \<Rightarrow> json) \<Rightarrow> json \<Rightarrow> json" where
  "map_content f msg =
     (case msg of
        JObject kvs \<Rightarrow>
          (case map_of kvs ''content'' of
             Some (JArray parts) \<Rightarrow> JObject (set_first kvs ''content'' (JArray (map f parts)))
           | _ \<Rightarrow> msg)
      | _ \<Rightarrow> msg)"

definition map_blocks :: "(json \<Rightarrow> json) \<Rightarrow> json \<Rightarrow> json" where
  "map_blocks f payload =
     (case payload of
        JObject kvs \<Rightarrow>
          (case map_of kvs ''messages'' of
             Some (JArray msgs) \<Rightarrow>
               JObject (set_first kvs ''messages'' (JArray (map (map_content f) msgs)))
           | _ \<Rightarrow> payload)
      | _ \<Rightarrow> payload)"


section \<open>Strings (\<open>strings\<close>, \<open>regexp\<close>, \<open>strconv\<close>, \<open>fmt\<close>)\<close>

text \<open>
  Texts are byte strings. \<open>strings.ToLower\<close> is modelled on ASCII: the letters \<open>A\<close> to
  \<open>Z\<close> are mapped, every other byte stays. On a text of ASCII bytes this is what
  \<open>strings.ToLower\<close> returns; the library also lowers letters outside ASCII (the Kelvin
  sign U+212A becomes \<open>k\<close>), which the model leaves as they are. The error texts
  evaluated below are ASCII.
\<close>

definition to_lower_char :: "char \<Rightarrow> char" where
  "to_lower_char c =
     (case map_of (zip ''ABCDEFGHIJKLMNOPQRSTUVWXYZ'' ''abcdefghijklmnopqrstuvwxyz'') c of
        Some l \<Rightarrow> l
      | None \<Rightarrow> c)"

definition ToLower :: "string \<Rightarrow> string" where
  "ToLower s = map to_lower_char s"

text \<open>\<open>strings.HasPrefix\<close> and \<open>strings.Contains\<close>.\<close>

fun HasPrefix :: "string \<Rightarrow> string \<Rightarrow> bool" where
  "HasPrefix s [] = True"
| "HasPrefix [] (p # ps) = False"
| "HasPrefix (c # cs) (p # ps) = (c = p \<and> HasPrefix cs ps)"

fun Contains :: "string \<Rightarrow> string \<Rightarrow> bool" where
  "Contains [] substr = (substr = [])"
| "Contains (c # cs) substr = (HasPrefix (c # cs) substr \<or> Contains cs substr)"

text \<open>
  \<open>anthropicErrorPosRegex.FindStringSubmatch\<close> for the pattern
  \<open>messages\.(\d+)\.content\.(\d+)\<close>: the leftmost position where the pattern matches,
  each group the longest run of digits there; the result is the pair of the two groups,
  \<open>None\<close> when nothing matches (the slice of submatches has then not three elements).
\<close>

fun TrimPrefix_opt :: "string \<Rightarrow> string \<Rightarrow> string option" where
  "TrimPrefix_opt s [] = Some s"
| "TrimPrefix_opt [] (p # ps) = None"
| "TrimPrefix_opt (c # cs) (p # ps) = (if c = p then TrimPrefix_opt cs ps else None)"

definition match_position_here :: "string \<Rightarrow> (string \<times> string) option" where
  "match_position_here s =
     (case TrimPrefix_opt s ''messages.'' of
        None \<Rightarrow> None
      | Some r1 \<Rightarrow>
          (let d1 = takeWhile is_digit r1 in
           if d1 = [] then None
           else (case TrimPrefix_opt (dropWhile is_digit r1) ''.content.'' of
                   None \<Rightarrow> None
                 | Some r2 \<Rightarrow>
                     (let d2 = takeWhile is_digit r2 in
                      if d2 = [] then None else Some (d1, d2)))))"

fun FindStringSubmatch_pos :: "string \<Rightarrow> (string \<times> string) option" where
  "FindStringSubmatch_pos [] = None"
| "FindStringSubmatch_pos (c # cs) =
     (case match_position_here (c # cs) of
        Some m \<Rightarrow> Some m
      | None \<Rightarrow> FindStringSubmatch_pos cs)"

text \<open>
  The value of a run of digits as \<open>int\<close> (64 bits). \<open>strconv.Atoi\<close> returns the largest
  \<open>int\<close> together with a range error when the value does not fit, \<open>fmt.Sscanf\<close> with
  \<open>%d\<close> leaves its target at zero then; both callers drop the error.
\<close>

fun decimal :: "nat \<Rightarrow> string \<Rightarrow> nat" where
  "decimal n [] = n"
| "decimal n (c # cs) = decimal (n * 10 + digit_val c) cs"

definition MaxInt64 :: nat where
  "MaxInt64 = 9223372036854775807"

definition Atoi :: "string \<Rightarrow> nat" where
  "Atoi s = min (decimal 0 s) MaxInt64"

definition parseInt :: "string \<Rightarrow> nat" where
  "parseInt s = (if decimal 0 s \<le> MaxInt64 then decimal 0 s else 0)"


section \<open>The error classifiers\<close>

text \<open>
  An error body is a text. What \<open>gjson\<close> reads in a text is given by the argument
  \<open>parse\<close>: the document found in it, or \<open>None\<close> where \<open>gjson\<close> finds none. The
  definitions and theorems hold for every such reading.
\<close>

subsection \<open>The Claude path (\<open>isClaudeThinkingInvalidSignatureError\<close>)\<close>

definition extractErrorMessage :: "(string \<Rightarrow> json option) \<Rightarrow> string \<Rightarrow> string" where
  "extractErrorMessage parse body =
     (let msg = String_of (Get (parse body) [''error'', ''message'']) in
      if msg \<noteq> [] then msg
      else (let msg = String_of (Get (parse body) [''message'']) in
            if msg \<noteq> [] then msg else body))"

definition isClaudeThinkingInvalidSignatureError ::
  "(string \<Rightarrow> json option) \<Rightarrow> int \<Rightarrow> string \<Rightarrow> bool" where
  "isClaudeThinkingInvalidSignatureError parse statusCode body =
     (if statusCode \<noteq> 400 then False
      else (let msgLower = ToLower (extractErrorMessage parse body) in
            Contains msgLower ''invalid signature'' \<and> Contains msgLower ''thinking''))"

subsection \<open>The Antigravity path (\<open>isAntigravityThinkingSignatureError\<close>)\<close>

definition extractAntigravityErrorMessage :: "(string \<Rightarrow> json option) \<Rightarrow> string \<Rightarrow> string" where
  "extractAntigravityErrorMessage parse body =
     (let outerMsg = String_of (Get (parse body) [''error'', ''message'']) in
      if outerMsg \<noteq> [] then
        (if HasPrefix outerMsg ''{'' then
           (let innerMsg = String_of (Get (parse outerMsg) [''error'', ''message'']) in
            if innerMsg \<noteq> [] then innerMsg else outerMsg)
         else outerMsg)
      else (let msg = String_of (Get (parse body) [''message'']) in
            if msg \<noteq> [] then msg else body))"

definition isAntigravityThinkingSignatureError ::
  "(string \<Rightarrow> json option) \<Rightarrow> int \<Rightarrow> string \<Rightarrow> bool" where
  "isAntigravityThinkingSignatureError parse statusCode body =
     (if statusCode \<noteq> 400 then False
      else (let msgLower = ToLower (extractAntigravityErrorMessage parse body) in
            Contains msgLower ''invalid'' \<and> Contains msgLower ''signature''
            \<and> Contains msgLower ''thinking''))"

subsection \<open>The streaming-fallback path (\<open>thinking_signature_fallback.go\<close>)\<close>

text \<open>
  \<open>Valid\<close> stands for \<open>json.Valid\<close>. An \<open>*interfaces.ErrorMessage\<close> may be nil, and so
  may its \<open>Error\<close>, whose text is \<open>Error.Error()\<close>.
\<close>

definition containsThinkingSignaturePattern :: "string \<Rightarrow> bool" where
  "containsThinkingSignaturePattern msgLower =
     (Contains msgLower ''invalid'' \<and> Contains msgLower ''signature''
      \<and> Contains msgLower ''thinking'')"

definition isThinkingSignatureErrorText ::
  "(string \<Rightarrow> json option) \<Rightarrow> (string \<Rightarrow> bool) \<Rightarrow> string \<Rightarrow> bool" where
  "isThinkingSignatureErrorText parse Valid errText =
     (if errText = [] then False
      else if containsThinkingSignaturePattern (ToLower errText) then True
      else if Valid errText then
        (let msg = String_of (Get (parse errText) [''error'', ''message'']) in
         if msg \<noteq> [] \<and> containsThinkingSignaturePattern (ToLower msg) then True
         else if msg \<noteq> [] \<and> Valid msg
                 \<and> containsThinkingSignaturePattern
                      (ToLower (String_of (Get (parse msg) [''error'', ''message''])))
         then True
         else (let msg = String_of (Get (parse errText) [''message'']) in
               if msg \<noteq> [] \<and> containsThinkingSignaturePattern (ToLower msg) then True
               else False))
      else False)"

record ErrorMessage =
  StatusCode :: int
  Error :: "string option"

definition ShouldFallbackThinkingSignature ::
  "(string \<Rightarrow> json option) \<Rightarrow> (string \<Rightarrow> bool) \<Rightarrow> ErrorMessage option \<Rightarrow> bool" where
  "ShouldFallbackThinkingSignature parse Valid err =
     (case err of
        None \<Rightarrow> False
      | Some e \<Rightarrow>
          (if StatusCode e \<noteq> 400 then False
           else (case Error e of
                   None \<Rightarrow> False
                 | Some text \<Rightarrow> isThinkingSignatureErrorText parse Valid text)))"


section \<open>The session identifier (\<open>deriveSessionIDFromClaudeMessages\<close>)\<close>

text \<open>
  \<open>Sum256\<close> stands for \<open>sha256.Sum256\<close>: the digest of a text is an array of 32 bytes,
  given by its index function, and \<open>h[:16]\<close> are the bytes at the indices below 16.
  \<open>hex.EncodeToString\<close> writes two digits of \<open>hextable\<close> for each byte.
\<close>

definition hextable :: string where
  "hextable = ''0123456789abcdef''"

definition hex_byte :: "8 word \<Rightarrow> string" where
  "hex_byte b = [hextable ! unat (drop_bit 4 b), hextable ! unat (b AND 0x0f)]"

definition EncodeToString :: "8 word list \<Rightarrow> string" where
  "EncodeToString src = concat (map hex_byte src)"

fun deriveSessionID_range :: "(string \<Rightarrow> nat \<Rightarrow> 8 word) \<Rightarrow> json list \<Rightarrow> string" where
  "deriveSessionID_range Sum256 [] = []"
| "deriveSessionID_range Sum256 (msg # msgs) =
     (if String_of (Get1 msg ''role'') \<noteq> ''user'' then deriveSessionID_range Sum256 msgs
      else (let content = String_of (Get1 msg ''content'');
                content = (if content = []
                           then String_of (Get (Some msg) [''content'', ''0'', ''text''])
                           else content)
            in if content \<noteq> [] then EncodeToString (map (Sum256 content) [0..<16])
               else deriveSessionID_range Sum256 msgs))"

definition deriveSessionIDFromClaudeMessages ::
  "(string \<Rightarrow> nat \<Rightarrow> 8 word) \<Rightarrow> json \<Rightarrow> string" where
  "deriveSessionIDFromClaudeMessages Sum256 body =
     (let messages = Get1 body ''messages'' in
      if \<not> IsArray messages then []
      else deriveSessionID_range Sum256 (Array_of messages))"


section \<open>Coordinates, recording and recovery\<close>

text \<open>
  The functions that write to the blacklist take the cache and the instant and return
  the cache after the call.
\<close>

definition extractInvalidThinkingPath ::
  "(string \<Rightarrow> json option) \<Rightarrow> string \<Rightarrow> nat \<times> nat \<times> bool" where
  "extractInvalidThinkingPath parse errBody =
     (case FindStringSubmatch_pos (extractErrorMessage parse errBody) of
        None \<Rightarrow> (0, 0, False)
      | Some (m1, m2) \<Rightarrow> (Atoi m1, Atoi m2, True))"

definition extractAntigravityInvalidThinkingPath ::
  "(string \<Rightarrow> json option) \<Rightarrow> string \<Rightarrow> nat \<times> nat \<times> bool" where
  "extractAntigravityInvalidThinkingPath parse errBody =
     (case FindStringSubmatch_pos (extractAntigravityErrorMessage parse errBody) of
        None \<Rightarrow> (0, 0, False)
      | Some (m1, m2) \<Rightarrow> (parseInt m1, parseInt m2, True))"

definition recordInvalidThinkingSignatureFromError ::
  "(string \<Rightarrow> json option) \<Rightarrow> invalidSignatureCache \<Rightarrow> int \<Rightarrow> string \<Rightarrow> json \<Rightarrow> string
     \<Rightarrow> invalidSignatureCache \<times> string \<times> bool" where
  "recordInvalidThinkingSignatureFromError parse c now sessionID sentPayload errBody =
     (if sessionID = [] then (c, [], False)
      else (case extractInvalidThinkingPath parse errBody of
              (msgIndex, partIndex, ok) \<Rightarrow>
                if \<not> ok then (c, [], False)
                else (let sig = String_of (Get (Some sentPayload)
                                  [''messages'', itoa msgIndex, ''content'', itoa partIndex,
                                   ''signature''])
                      in if sig = [] then (c, [], False)
                         else (CacheInvalidSignature c sessionID sig now, sig, True))))"

definition recordAntigravityInvalidSignature ::
  "(string \<Rightarrow> json option) \<Rightarrow> invalidSignatureCache \<Rightarrow> int \<Rightarrow> string \<Rightarrow> json \<Rightarrow> string
     \<Rightarrow> invalidSignatureCache \<times> string \<times> bool" where
  "recordAntigravityInvalidSignature parse c now sessionID originalPayload errBody =
     (if sessionID = [] then (c, [], False)
      else (case extractAntigravityInvalidThinkingPath parse errBody of
              (msgIndex, partIndex, ok) \<Rightarrow>
                if \<not> ok then (c, [], False)
                else (let sig = String_of (Get (Some originalPayload)
                                  [''messages'', itoa msgIndex, ''content'', itoa partIndex,
                                   ''signature''])
                      in if sig = [] then (c, [], False)
                         else (CacheInvalidSignature c sessionID sig now, sig, True))))"

text \<open>
  The result of the two recovery handlers: the payload for the retry and the flag
  \<open>shouldRetry\<close> that the code returns, together with the cache after the call and the
  signatures written to it. One instant stands for the whole call.
\<close>

record recovery =
  rec_cache :: invalidSignatureCache
  rec_written :: "string list"
  rec_newPayload :: json
  rec_shouldRetry :: bool

definition handleThinkingErrorRecovery ::
  "(string \<Rightarrow> json option) \<Rightarrow> invalidSignatureCache \<Rightarrow> int \<Rightarrow> string \<Rightarrow> json \<Rightarrow> string \<Rightarrow> int
     \<Rightarrow> recovery" where
  "handleThinkingErrorRecovery parse c now sessionID payload errBody statusCode =
     (if \<not> isClaudeThinkingInvalidSignatureError parse statusCode errBody then
        \<lparr>rec_cache = c, rec_written = [], rec_newPayload = payload, rec_shouldRetry = False\<rparr>
      else (case recordInvalidThinkingSignatureFromError parse c now sessionID payload errBody of
              (c', sig, ok) \<Rightarrow>
                if ok then
                  \<lparr>rec_cache = c', rec_written = [sig],
                   rec_newPayload = fst (sanitizeClaudePayloadForInvalidThinking c' now payload sessionID),
                   rec_shouldRetry = True\<rparr>
                else
                  \<lparr>rec_cache = c', rec_written = [],
                   rec_newPayload = fst (stripClaudeThinkingBlocksForRetry payload),
                   rec_shouldRetry = True\<rparr>))"

definition handleAntigravityThinkingErrorRecovery ::
  "(string \<Rightarrow> json option) \<Rightarrow> invalidSignatureCache \<Rightarrow> int \<Rightarrow> string \<Rightarrow> json \<Rightarrow> string \<Rightarrow> int
     \<Rightarrow> recovery" where
  "handleAntigravityThinkingErrorRecovery parse c now sessionID originalPayload errBody statusCode =
     (if \<not> isAntigravityThinkingSignatureError parse statusCode errBody then
        \<lparr>rec_cache = c, rec_written = [], rec_newPayload = originalPayload, rec_shouldRetry = False\<rparr>
      else (case recordAntigravityInvalidSignature parse c now sessionID originalPayload errBody of
              (c', sig, ok) \<Rightarrow>
                if ok then
                  \<lparr>rec_cache = c', rec_written = [sig],
                   rec_newPayload = fst (sanitizeAntigravityPayloadForInvalidThinking c' now
                                       originalPayload sessionID),
                   rec_shouldRetry = True\<rparr>
                else
                  \<lparr>rec_cache = c', rec_written = [],
                   rec_newPayload = fst (stripAntigravityThinkingBlocksForRetry originalPayload),
                   rec_shouldRetry = True\<rparr>))"


section \<open>The recovery wrappers\<close>

subsection \<open>\<open>executeClaudeNonStreamWithRecovery\<close> of the Antigravity executor\<close>

text \<open>
  An error is a \<open>statusErr\<close> with its code and message, or some other error. A
  \<open>cliproxyexecutor.Request\<close> carries the payload and \<open>cliproxyexecutor.Options\<close> the
  original request, which may be empty (\<open>None\<close>); their other fields are not read.

  \<open>executeClaudeNonStream\<close> is the wrapped method: an argument, which answers the
  \<open>n\<close>-th call of the wrapper (counted from zero) with a response and possibly an error.
  The run of a wrapper is its result together with the cache at the end, the calls it
  made of the wrapped method, in order, and the signatures it wrote to the blacklist.
  \<open>now\<close> is the instant of the pass before the first attempt, \<open>now'\<close> that of the
  recovery.
\<close>

datatype error = statusErr int string | other_error string

record Request =
  Payload :: json

record Options =
  OriginalRequest :: "json option"

record ('r, 'a) run =
  returned :: "'r"
  cache_end :: invalidSignatureCache
  attempts :: "'a list"
  blacklist_writes :: "string list"

definition executeClaudeNonStreamWithRecovery ::
  "(string \<Rightarrow> json option) \<Rightarrow> (string \<Rightarrow> nat \<Rightarrow> 8 word)
     \<Rightarrow> (nat \<Rightarrow> Request \<Rightarrow> Options \<Rightarrow> 'resp \<times> error option)
     \<Rightarrow> invalidSignatureCache \<Rightarrow> int \<Rightarrow> int \<Rightarrow> Request \<Rightarrow> Options
     \<Rightarrow> ('resp \<times> error option, Request \<times> Options) run" where
  "executeClaudeNonStreamWithRecovery parse Sum256 executeClaudeNonStream c now now' req opts =
     (let originalPayload = (case OriginalRequest opts of Some orig \<Rightarrow> orig | None \<Rightarrow> Payload req);
          sessionID = deriveSessionIDFromClaudeMessages Sum256 originalPayload;
          (sanitized, changed) =
             sanitizeAntigravityPayloadForInvalidThinking c now originalPayload sessionID;
          req = (if changed then req\<lparr>Payload := sanitized\<rparr> else req);
          opts = (if changed then opts\<lparr>OriginalRequest := Some sanitized\<rparr> else opts);
          (resp, err) = executeClaudeNonStream 0 req opts
      in case err of
           None \<Rightarrow>
             \<lparr>returned = (resp, None), cache_end = c, attempts = [(req, opts)],
              blacklist_writes = []\<rparr>
         | Some (other_error e) \<Rightarrow>
             \<lparr>returned = (resp, err), cache_end = c, attempts = [(req, opts)],
              blacklist_writes = []\<rparr>
         | Some (statusErr code msg) \<Rightarrow>
             (let r = handleAntigravityThinkingErrorRecovery parse c now' sessionID
                        originalPayload msg code
              in if rec_shouldRetry r then
                   (let req' = req\<lparr>Payload := rec_newPayload r\<rparr>;
                        opts' = opts\<lparr>OriginalRequest := Some (rec_newPayload r)\<rparr>
                    in \<lparr>returned = executeClaudeNonStream 1 req' opts',
                        cache_end = rec_cache r,
                        attempts = [(req, opts), (req', opts')],
                        blacklist_writes = rec_written r\<rparr>)
                 else
                   \<lparr>returned = (resp, err), cache_end = rec_cache r,
                    attempts = [(req, opts)], blacklist_writes = rec_written r\<rparr>))"

text \<open>The request of the first attempt: the pre-attempt selective strip applied.\<close>

definition first_request ::
  "invalidSignatureCache \<Rightarrow> int \<Rightarrow> (string \<Rightarrow> nat \<Rightarrow> 8 word) \<Rightarrow> Request \<Rightarrow> Options
     \<Rightarrow> Request \<times> Options" where
  "first_request c now Sum256 req opts =
     (let originalPayload = (case OriginalRequest opts of Some orig \<Rightarrow> orig | None \<Rightarrow> Payload req);
          sessionID = deriveSessionIDFromClaudeMessages Sum256 originalPayload;
          (sanitized, changed) =
             sanitizeAntigravityPayloadForInvalidThinking c now originalPayload sessionID
      in if changed then (req\<lparr>Payload := sanitized\<rparr>, opts\<lparr>OriginalRequest := Some sanitized\<rparr>)
         else (req, opts))"

text \<open>The first answer classified as a signature error, as the wrapper classifies it.\<close>

definition signature_error_Antigravity :: "(string \<Rightarrow> json option) \<Rightarrow> error option \<Rightarrow> bool" where
  "signature_error_Antigravity parse err =
     (case err of
        Some (statusErr code msg) \<Rightarrow> isAntigravityThinkingSignatureError parse code msg
      | _ \<Rightarrow> False)"

subsection \<open>\<open>claudeThinkingRecoveryTransport.RoundTrip\<close> of the Claude executor\<close>

text \<open>
  An \<open>*http.Request\<close> may be nil, and so may its URL; of a request the model keeps the
  path of the URL, the body and the content length. A response is its status code and its
  body. Of a body (an \<open>io.ReadCloser\<close>) the model keeps what \<open>io.ReadAll\<close> returns of
  it: the bytes read and the error, if any, that ended the read. \<open>NopCloser_Reader b\<close> is
  \<open>io.NopCloser(bytes.NewReader(b))\<close>, the body that reads as \<open>b\<close> without error. The
  base transport answers the \<open>n\<close>-th call with an error or a response.
\<close>

datatype ReadCloser = ReadCloser string "error option"

fun ReadAll :: "ReadCloser \<Rightarrow> string \<times> error option" where
  "ReadAll (ReadCloser b readErr) = (b, readErr)"

definition NopCloser_Reader :: "string \<Rightarrow> ReadCloser" where
  "NopCloser_Reader b = ReadCloser b None"

record http_Request =
  Request_URL_Path :: "string option"
  Request_Body :: json
  Request_ContentLength :: int

record http_Response =
  Response_StatusCode :: int
  Response_Body :: ReadCloser

record claudeThinkingRecoveryTransport =
  transport_sessionID :: string
  transport_initialPayload :: json

definition isClaudeMessagesRequest :: "http_Request option \<Rightarrow> bool" where
  "isClaudeMessagesRequest req =
     (case req of
        None \<Rightarrow> False
      | Some r \<Rightarrow>
          (case Request_URL_Path r of
             None \<Rightarrow> False
           | Some path \<Rightarrow> Contains path ''/v1/messages''))"

definition RoundTrip ::
  "(string \<Rightarrow> json option) \<Rightarrow> (nat \<Rightarrow> http_Request option \<Rightarrow> error + http_Response)
     \<Rightarrow> claudeThinkingRecoveryTransport \<Rightarrow> invalidSignatureCache \<Rightarrow> int \<Rightarrow> http_Request option
     \<Rightarrow> (error + http_Response, http_Request option) run" where
  "RoundTrip parse base t c now req =
     (if \<not> isClaudeMessagesRequest req then
        \<lparr>returned = base 0 req, cache_end = c, attempts = [req], blacklist_writes = []\<rparr>
      else
        (case base 0 req of
           Inl err \<Rightarrow>
             \<lparr>returned = Inl err, cache_end = c, attempts = [req], blacklist_writes = []\<rparr>
         | Inr resp \<Rightarrow>
             if Response_StatusCode resp \<noteq> 400 then
               \<lparr>returned = Inr resp, cache_end = c, attempts = [req], blacklist_writes = []\<rparr>
             else
               (case ReadAll (Response_Body resp) of
                  (b, Some readErr) \<Rightarrow>
                    \<lparr>returned = Inr (resp\<lparr>Response_Body := NopCloser_Reader []\<rparr>),
                     cache_end = c, attempts = [req], blacklist_writes = []\<rparr>
                | (b, None) \<Rightarrow>
                    (let r = handleThinkingErrorRecovery parse c now (transport_sessionID t)
                               (transport_initialPayload t) b (Response_StatusCode resp)
                     in if \<not> rec_shouldRetry r then
                          \<lparr>returned = Inr (resp\<lparr>Response_Body := NopCloser_Reader b\<rparr>),
                           cache_end = rec_cache r, attempts = [req],
                           blacklist_writes = rec_written r\<rparr>
                        else
                          (let retryReq =
                                 map_option
                                   (\<lambda>rq. rq\<lparr>Request_Body := rec_newPayload r,
                                      Request_ContentLength :=
                                        int (length (raw (rec_newPayload r)))\<rparr>)
                                   req
                           in \<lparr>returned = base 1 retryReq, cache_end = rec_cache r,
                               attempts = [req, retryReq],
                               blacklist_writes = rec_written r\<rparr>)))))"

text \<open>
  The first answer classified as a signature error, as the transport classifies it: a
  response whose body was read without error and whose status and bytes the classifier
  accepts. \<open>body_unreadable\<close> holds of a response with status 400 whose body cannot be
  read; \<open>with_empty_body\<close> is a response with its body replaced by the empty one.
\<close>

definition signature_error_Claude ::
  "(string \<Rightarrow> json option) \<Rightarrow> error + http_Response \<Rightarrow> bool" where
  "signature_error_Claude parse answer =
     (case answer of
        Inr resp \<Rightarrow>
          (case ReadAll (Response_Body resp) of
             (b, None) \<Rightarrow>
               isClaudeThinkingInvalidSignatureError parse (Response_StatusCode resp) b
           | (b, Some readErr) \<Rightarrow> False)
      | Inl err \<Rightarrow> False)"

definition body_unreadable :: "error + http_Response \<Rightarrow> bool" where
  "body_unreadable answer =
     (case answer of
        Inr resp \<Rightarrow>
          Response_StatusCode resp = 400 \<and> snd (ReadAll (Response_Body resp)) \<noteq> None
      | Inl err \<Rightarrow> False)"

definition with_empty_body :: "error + http_Response \<Rightarrow> error + http_Response" where
  "with_empty_body answer =
     (case answer of
        Inr resp \<Rightarrow> Inr (resp\<lparr>Response_Body := NopCloser_Reader []\<rparr>)
      | Inl err \<Rightarrow> Inl err)"


section \<open>The streaming fallback (\<open>thinking_signature_fallback.go\<close>)\<close>

text \<open>
  \<open>Result.Value()\<close> is nil for null and for a missing result. \<open>LF\<close> is the line feed.
\<close>

definition LF :: string where
  "LF = [CHR 0x0A]"







text \<open>The Gemini form: one unlabelled frame, or the response itself.\<close>

definition BuildGeminiFinalOnlySSE :: "string \<Rightarrow> string \<Rightarrow> string" where
  "BuildGeminiFinalOnlySSE nonStreamResp alt =
     (if alt = [] then ''data: '' @ nonStreamResp @ LF @ LF else nonStreamResp)"

subsection \<open>The frames in the words of the specification\<close>

text \<open>
  A labelled frame is an event name line, a data line and a blank line; an unlabelled
  frame is a data line and a blank line. \<open>claude_frames\<close> lists the frames of the Claude
  form in order: the opening frame, for each content block its start, its delta when it is
  of type \<open>text\<close> or \<open>thinking\<close>, and its stop, then the message delta with the stop
  reason and the usage when present, and the closing frame.
\<close>

datatype frame = Event string string | Data string

fun render_frame :: "frame \<Rightarrow> string" where
  "render_frame (Event name d) = ''event: '' @ name @ LF @ ''data: '' @ d @ LF @ LF"
| "render_frame (Data d) = ''data: '' @ d @ LF @ LF"




section \<open>Example documents\<close>

text \<open>
  The payload of \<open>TestSanitizeAntigravityPayloadForInvalidThinking\<close> (signatures
  shortened), and a payload with a redacted thinking block.
\<close>

definition test_payload :: json where
  "test_payload =
     JObject [(''messages'', JArray [
       JObject [(''role'', JString ''user''),
                (''content'', JArray [JObject [(''type'', JString ''text''),
                                               (''text'', JString ''hello'')]])],
       JObject [(''role'', JString ''assistant''),
                (''content'', JArray [
                   JObject [(''type'', JString ''thinking''),
                            (''thinking'', JString ''bad thought''),
                            (''signature'', JString ''bad-signature'')],
                   JObject [(''type'', JString ''thinking''),
                            (''thinking'', JString ''good thought''),
                            (''signature'', JString ''good-signature'')],
                   JObject [(''type'', JString ''text''),
                            (''text'', JString ''response'')]])]])]"

definition redacted_payload :: json where
  "redacted_payload =
     JObject [(''messages'', JArray [
       JObject [(''role'', JString ''assistant''),
                (''content'', JArray [
                   JObject [(''type'', JString ''redacted_thinking''),
                            (''data'', JString ''EmwKAhgB'')],
                   JObject [(''type'', JString ''text''),
                            (''text'', JString ''response'')]])]])]"


text \<open>
  An error body in the wording of the provider, with backticks, as a text and as the
  document read in it; the payload of \<open>TestSanitizeClaudePayloadForInvalidThinking\<close>
  before and after the selective strip of \<open>bad-sig\<close>; an error message with a position;
  upstreams for the examples; and the response of \<open>TestBuildClaudeFinalOnlySSE\<close>.
\<close>

definition backtick_body :: string where
  \<open>backtick_body = ''{"type":"error","error":{"type":"invalid_request_error","message":"messages.1.content.0: Invalid `signature` in `thinking` block"}}''\<close>

definition backtick_doc :: json where
  "backtick_doc =
     JObject [(''type'', JString ''error''),
              (''error'', JObject [(''type'', JString ''invalid_request_error''),
                  (''message'', JString ''messages.1.content.0: Invalid `signature` in `thinking` block'')])]"

definition backtick_reading :: "string \<Rightarrow> json option" where
  "backtick_reading text = (if text = backtick_body then Some backtick_doc else None)"

definition stale_payload :: json where
  "stale_payload =
     JObject [(''messages'', JArray [
       JObject [(''role'', JString ''user''), (''content'', JString ''hello'')],
       JObject [(''role'', JString ''assistant''),
                (''content'', JArray [
                   JObject [(''type'', JString ''thinking''),
                            (''thinking'', JString ''...''),
                            (''signature'', JString ''bad-sig'')],
                   JObject [(''type'', JString ''text''), (''text'', JString ''OK'')]])]])]"

definition stale_sent :: json where
  "stale_sent =
     JObject [(''messages'', JArray [
       JObject [(''role'', JString ''user''), (''content'', JString ''hello'')],
       JObject [(''role'', JString ''assistant''),
                (''content'', JArray [
                   JObject [(''type'', JString ''text''),
                            (''text'', JString ''[Previous thinking omitted due to invalid signature]'')],
                   JObject [(''type'', JString ''text''), (''text'', JString ''OK'')]])]])]"

definition position_error :: string where
  "position_error = ''messages.1.content.0: Invalid signature in thinking block''"

definition no_document :: "string \<Rightarrow> json option" where
  "no_document text = None"

definition always_rejecting :: "nat \<Rightarrow> Request \<Rightarrow> Options \<Rightarrow> unit \<times> error option" where
  "always_rejecting n req opts = ((), Some (statusErr 400 position_error))"

definition rejecting_once :: "nat \<Rightarrow> Request \<Rightarrow> Options \<Rightarrow> unit \<times> error option" where
  "rejecting_once n req opts =
     (if n = 0 then ((), Some (statusErr 400 position_error)) else ((), None))"

definition answering_ok :: "nat \<Rightarrow> http_Request option \<Rightarrow> error + http_Response" where
  "answering_ok n req =
     Inr \<lparr>Response_StatusCode = 200, Response_Body = NopCloser_Reader ''ok''\<rparr>"

text \<open>
  A request for \<open>/v1/messages\<close>, a transport, and an upstream whose answer is a 400
  with a body that breaks off: the read delivers the bytes so far and fails.
\<close>

definition messages_request :: "http_Request option" where
  "messages_request =
     Some \<lparr>Request_URL_Path = Some ''/v1/messages'', Request_Body = stale_payload,
           Request_ContentLength = 0\<rparr>"

definition stale_transport :: claudeThinkingRecoveryTransport where
  "stale_transport = \<lparr>transport_sessionID = ''s'', transport_initialPayload = stale_payload\<rparr>"

definition truncated_400 :: http_Response where
  \<open>truncated_400 =
     \<lparr>Response_StatusCode = 400,
      Response_Body = ReadCloser ''{"type":"error","err'' (Some (other_error ''unexpected EOF''))\<rparr>\<close>

definition answering_truncated :: "nat \<Rightarrow> http_Request option \<Rightarrow> error + http_Response" where
  "answering_truncated n req = Inr truncated_400"




chapter \<open>Verification\<close>

section \<open>The signature blacklist\<close>

lemma fmempty_iff: "(m = fmempty) = (\<forall>k. fmlookup m k = None)"
  by (metis fmap_ext fmempty_lookup)

lemma entry_record:
  "entry (CacheInvalidSignature c s g now) s' g' =
     (if s \<noteq> [] \<and> g \<noteq> [] \<and> s' = s \<and> g' = g then Some now else entry c s' g')"
  by (auto simp: entry_def CacheInvalidSignature_def getOrCreateInvalidSession_def
           split: option.splits)

lemma entry_clear:
  "entry (ClearInvalidSignatureCache c s) s' g' =
     (if s = [] \<or> s' = s then None else entry c s' g')"
  by (auto simp: entry_def ClearInvalidSignatureCache_def split: option.splits)

lemma entry_purge:
  "entry (purgeExpiredInvalidSignatures c now) s g =
     (case entry c s g of
        None \<Rightarrow> None
      | Some ts \<Rightarrow> if now - ts > InvalidSignatureCacheTTL then None else Some ts)"
  by (auto simp: entry_def purgeExpiredInvalidSignatures_def purgeSession_def fmempty_iff
           split: option.splits)

lemma IsInvalidSignature_entry:
  "IsInvalidSignature c s g now = (s \<noteq> [] \<and> g \<noteq> [] \<and> entry_within_TTL c s g now)"
  by (auto simp: IsInvalidSignature_def entry_within_TTL_def entry_def split: option.splits)

text \<open>No reachable cache holds an entry under an empty session key or an empty signature.\<close>

lemma reachable_no_empty_key:
  "reachable c \<Longrightarrow> entry c s g = Some ts \<Longrightarrow> s \<noteq> [] \<and> g \<noteq> []"
proof (induction arbitrary: s g ts rule: reachable.induct)
  case at_start
  then show ?case by (simp add: entry_def)
next
  case (after_record c sessionID signature now)
  then show ?case by (auto simp: entry_record split: if_splits)
next
  case (after_clear c sessionID)
  then show ?case by (auto simp: entry_clear split: if_splits)
next
  case (after_sweep c now)
  then show ?case by (auto simp: entry_purge split: option.splits if_splits)
qed

text \<open>A sweep never changes what a later reader sees.\<close>

lemma sweep_keeps_blacklist:
  "now \<le> now' \<Longrightarrow>
   IsInvalidSignature (purgeExpiredInvalidSignatures c now) s g now' = IsInvalidSignature c s g now'"
  by (auto simp: IsInvalidSignature_entry entry_within_TTL_def entry_purge split: option.splits)

text \<open>
  Claim C4, as the code has it. Recording under an empty session key or an empty
  signature is a no-op, so the first clause holds for non-empty arguments: for a non-empty
  session and signature, a lookup no later than the TTL after \<open>CacheInvalidSignature\<close>
  answers true. After \<open>ClearInvalidSignatureCache s\<close> every lookup under \<open>s\<close> answers
  false. A lookup with an empty session or an empty signature answers false in every
  cache. In every cache reached from the empty one by recording, clearing and sweeping,
  \<open>IsInvalidSignature\<close> answers true exactly when an entry exists whose age is at most
  the TTL of three hours.
\<close>

theorem blacklist_contract:
  assumes "reachable c" and "sessionID \<noteq> []" and "signature \<noteq> []"
    and "now' - now \<le> InvalidSignatureCacheTTL"
  shows "IsInvalidSignature (CacheInvalidSignature c sessionID signature now)
           sessionID signature now'
       \<and> \<not> IsInvalidSignature (ClearInvalidSignatureCache c' s) s g t
       \<and> \<not> IsInvalidSignature c' [] g t
       \<and> \<not> IsInvalidSignature c' s [] t
       \<and> IsInvalidSignature c s g t = entry_within_TTL c s g t
       \<and> InvalidSignatureCacheTTL = 3 * 60 * 60 * 1000000000"
proof -
  have 1: "IsInvalidSignature (CacheInvalidSignature c sessionID signature now)
             sessionID signature now'"
    using assms(2-4) by (simp add: IsInvalidSignature_entry entry_within_TTL_def entry_record)
  have 2: "\<not> IsInvalidSignature (ClearInvalidSignatureCache c' s) s g t"
    by (simp add: IsInvalidSignature_entry entry_within_TTL_def entry_clear)
  have 3: "\<not> IsInvalidSignature c' [] g t" "\<not> IsInvalidSignature c' s [] t"
    by (simp_all add: IsInvalidSignature_def)
  have 4: "IsInvalidSignature c s g t = entry_within_TTL c s g t"
    using reachable_no_empty_key[OF assms(1), of s g]
    by (auto simp: IsInvalidSignature_entry entry_within_TTL_def split: option.splits)
  have 5: "InvalidSignatureCacheTTL = 3 * 60 * 60 * 1000000000"
    by (simp add: InvalidSignatureCacheTTL_def)
  from 1 2 3 4 5 show ?thesis by blast
qed

theorem blacklist_contract_witness:
  "IsInvalidSignature (CacheInvalidSignature (CacheInvalidSignature fmempty ''s1'' ''g0'' 0)
       ''s1'' ''g1'' 5) ''s1'' ''g1'' 7
   \<and> \<not> IsInvalidSignature
         (ClearInvalidSignatureCache (CacheInvalidSignature fmempty ''s1'' ''g0'' 0) ''s1'')
         ''s1'' ''g0'' 7
   \<and> IsInvalidSignature (CacheInvalidSignature fmempty ''s1'' ''g0'' 0) ''s1'' ''g0'' 7
       = entry_within_TTL (CacheInvalidSignature fmempty ''s1'' ''g0'' 0) ''s1'' ''g0'' 7"
proof -
  have r: "reachable (CacheInvalidSignature fmempty ''s1'' ''g0'' 0)"
    by (rule reachable.after_record) (rule reachable.at_start)
  have h: "''s1'' \<noteq> []" "''g1'' \<noteq> []" "(7::int) - 5 \<le> InvalidSignatureCacheTTL"
    by (simp_all add: InvalidSignatureCacheTTL_def)
  show ?thesis
    using blacklist_contract[OF r h,
        of "CacheInvalidSignature fmempty ''s1'' ''g0'' 0" "''s1''" "''g0''" 7]
    by simp
qed

text \<open>
  The first clause of C4 as it is written, for all sessions and signatures, fails at
  the empty session key: the record is dropped and the lookup answers false.
\<close>

theorem blacklist_record_empty_session_counterexample:
  "\<not> IsInvalidSignature (CacheInvalidSignature fmempty [] ''sig'' 0) [] ''sig'' 0"
  by (simp add: IsInvalidSignature_def)

section \<open>Decimal numerals\<close>

lemma digit_char_props: "d < 10 \<Longrightarrow> is_digit (digit_char d) \<and> digit_val (digit_char d) = d"
proof -
  assume "d < 10"
  then have "d = 0 \<or> d = 1 \<or> d = 2 \<or> d = 3 \<or> d = 4 \<or> d = 5 \<or> d = 6 \<or> d = 7 \<or> d = 8 \<or> d = 9"
    by arith
  then show ?thesis
    by (elim disjE) (simp_all add: is_digit_def digit_val_def digit_char_def)
qed

lemma parse_digits_append:
  "parse_digits n (xs @ ys) =
     (case parse_digits n xs of None \<Rightarrow> None | Some m \<Rightarrow> parse_digits m ys)"
  by (induction xs arbitrary: n) auto

lemma parse_digits_itoa: "parse_digits 0 (itoa n) = Some n"
proof (induction n rule: itoa.induct)
  case (1 n)
  show ?case
  proof (cases "n < 10")
    case True
    then show ?thesis using digit_char_props[of n] by (simp add: itoa.simps)
  next
    case False
    then have "parse_digits 0 (itoa (n div 10)) = Some (n div 10)" using 1 by simp
    moreover have "n mod 10 < 10" by simp
    ultimately show ?thesis using False digit_char_props[of "n mod 10"]
      by (subst itoa.simps) (simp add: parse_digits_append)
  qed
qed

lemma itoa_nonempty: "itoa n \<noteq> []"
  by (subst itoa.simps) simp

lemma parseUint_itoa: "parseUint (itoa n) = Some n"
  by (simp add: parseUint_def parse_digits_itoa itoa_nonempty)

section \<open>The payload sanitizers\<close>

lemma map_of_set_first:
  "map_of (set_first kvs k v) k' = (if k' = k then Some v else map_of kvs k')"
  by (induction kvs) auto

lemma set_first_twice: "set_first (set_first kvs k v) k w = set_first kvs k w"
  by (induction kvs) auto

lemma set_first_same: "map_of kvs k = Some v \<Longrightarrow> set_first kvs k v = kvs"
  by (induction kvs) (auto split: if_splits)

lemma parseUint_field_names: "parseUint ''messages'' = None" "parseUint ''content'' = None"
  by (simp_all add: parseUint_def is_digit_def)

lemma Get1_content_array:
  "Get1 msg ''content'' = Some (JArray parts) \<Longrightarrow>
   \<exists>kvs. msg = JObject kvs \<and> map_of kvs ''content'' = Some (JArray parts)"
  by (cases msg) (auto simp: parseUint_field_names)

lemma Get1_messages_array:
  "Get1 payload ''messages'' = Some (JArray msgs) \<Longrightarrow>
   \<exists>kvs. payload = JObject kvs \<and> map_of kvs ''messages'' = Some (JArray msgs)"
  by (cases payload) (auto simp: parseUint_field_names)

lemma IsArray_iff: "IsArray r = (\<exists>xs. r = Some (JArray xs))"
  by (cases r rule: IsArray.cases) auto

text \<open>The write of one block finds its place: \<open>sjson\<close> reports no error.\<close>

lemma Set_block:
  assumes "m < length ms" and "ms ! m = JObject (set_first mkvs ''content'' (JArray parts))"
    and "c < length parts"
  shows "Set_dropping_error (JObject (set_first kvs ''messages'' (JArray ms)))
           [''messages'', itoa m, ''content'', itoa c] v
         = JObject (set_first kvs ''messages''
             (JArray (ms[m := JObject (set_first mkvs ''content'' (JArray (parts[c := v])))])))"
  using assms
  by (simp add: Set_dropping_error_def map_of_set_first parseUint_itoa set_first_twice)

text \<open>
  The inner loop, by induction on the parts still to visit: \<open>seen\<close> are the parts behind,
  already substituted in the current payload.
\<close>

lemma replace_content_ForEach_eq:
  assumes "m < length ms"
    and "ms ! m = JObject (set_first mkvs ''content'' (JArray (seen @ parts)))"
    and "c = length seen"
  shows "replace_content_ForEach sr m c parts
           (JObject (set_first kvs ''messages'' (JArray ms)), ch)
         = (JObject (set_first kvs ''messages''
              (JArray (ms[m := JObject (set_first mkvs ''content''
                 (JArray (seen @ map (substitute (selected sr)) parts)))]))),
            ch \<or> list_ex (selected sr) parts)"
  using assms
proof (induction parts arbitrary: c seen ms ch)
  case Nil
  then have "ms[m := JObject (set_first mkvs ''content'' (JArray seen))] = ms"
    by (metis append_Nil2 list_update_id)
  then show ?case by simp
next
  case (Cons part parts)
  let ?P = "\<lambda>ms. JObject (set_first kvs ''messages'' (JArray ms))"
  let ?M = "\<lambda>parts. JObject (set_first mkvs ''content'' (JArray parts))"
  show ?case
  proof (cases "selected sr part")
    case False
    have "replace_content_ForEach sr m c (part # parts) (?P ms, ch)
        = replace_content_ForEach sr m (Suc c) parts (?P ms, ch)"
      using False
      by (auto simp: selected_def is_thinking_def signature_of_def split: option.splits)
    also have "\<dots> = (?P (ms[m := ?M ((seen @ [part]) @ map (substitute (selected sr)) parts)]),
                       ch \<or> list_ex (selected sr) parts)"
      using Cons.prems by (intro Cons.IH) auto
    finally have "replace_content_ForEach sr m c (part # parts) (?P ms, ch)
        = (?P (ms[m := ?M ((seen @ [part]) @ map (substitute (selected sr)) parts)]),
           ch \<or> list_ex (selected sr) parts)" .
    moreover have "substitute (selected sr) part = part"
      using False by (simp add: substitute_def)
    ultimately show ?thesis using False by simp
  next
    case True
    let ?ms' = "ms[m := ?M ((seen @ part # parts)[c := thinkingPlaceholder])]"
    have "replace_content_ForEach sr m c (part # parts) (?P ms, ch)
        = replace_content_ForEach sr m (Suc c) parts
            (Set_dropping_error (?P ms) [''messages'', itoa m, ''content'', itoa c]
               thinkingPlaceholder, True)"
      using True
      by (auto simp: selected_def is_thinking_def signature_of_def split: option.splits)
    also have "\<dots> = replace_content_ForEach sr m (Suc c) parts (?P ?ms', True)"
      using Cons.prems
      by (subst Set_block[where mkvs = mkvs and parts = "seen @ part # parts"]) auto
    also have "\<dots> = (?P (?ms'[m := ?M ((seen @ [thinkingPlaceholder])
                                          @ map (substitute (selected sr)) parts)]),
                       True \<or> list_ex (selected sr) parts)"
      using Cons.prems by (intro Cons.IH) (auto simp: list_update_append)
    finally have "replace_content_ForEach sr m c (part # parts) (?P ms, ch)
        = (?P (?ms'[m := ?M ((seen @ [thinkingPlaceholder])
                            @ map (substitute (selected sr)) parts)]),
           True \<or> list_ex (selected sr) parts)" .
    moreover have "substitute (selected sr) part = thinkingPlaceholder"
      using True by (simp add: substitute_def)
    ultimately show ?thesis using True by simp
  qed
qed

text \<open>The outer loop, by induction on the messages still to visit.\<close>

lemma replace_messages_ForEach_eq:
  assumes "m = length dm"
  shows "replace_messages_ForEach sr m msgs
           (JObject (set_first kvs ''messages'' (JArray (dm @ msgs))), ch)
         = (JObject (set_first kvs ''messages''
              (JArray (dm @ map (map_content (substitute (selected sr))) msgs))),
            ch \<or> list_ex (\<lambda>msg. list_ex (selected sr) (content_of msg)) msgs)"
  using assms
proof (induction msgs arbitrary: m dm ch)
  case Nil
  then show ?case by simp
next
  case (Cons msg msgs)
  let ?P = "\<lambda>ms. JObject (set_first kvs ''messages'' (JArray ms))"
  let ?f = "substitute (selected sr)"
  let ?any = "list_ex (\<lambda>msg. list_ex (selected sr) (content_of msg))"
  show ?case
  proof (cases "IsArray (Get1 msg ''content'')")
    case False
    then have c: "content_of msg = []" "map_content ?f msg = msg"
      by (auto simp: content_of_def map_content_def split: option.splits json.splits)
    have "replace_messages_ForEach sr m (msg # msgs) (?P (dm @ msg # msgs), ch)
        = replace_messages_ForEach sr (Suc m) msgs (?P ((dm @ [msg]) @ msgs), ch)"
      using False by simp
    also have "\<dots> = (?P ((dm @ [msg]) @ map (map_content ?f) msgs), ch \<or> ?any msgs)"
      using Cons.prems by (intro Cons.IH) simp
    finally show ?thesis using c by simp
  next
    case True
    then obtain parts where p: "Get1 msg ''content'' = Some (JArray parts)"
      by (auto simp: IsArray_iff)
    then obtain mkvs where
      mk: "msg = JObject mkvs" "map_of mkvs ''content'' = Some (JArray parts)"
      using Get1_content_array by blast
    let ?M = "\<lambda>parts. JObject (set_first mkvs ''content'' (JArray parts))"
    have msg_eq: "msg = ?M ([] @ parts)"
      using mk by (simp add: set_first_same)
    have mc: "map_content ?f msg = ?M (map ?f parts)" "content_of msg = parts"
      using mk by (simp_all add: map_content_def content_of_def)
    have "replace_messages_ForEach sr m (msg # msgs) (?P (dm @ msg # msgs), ch)
        = replace_messages_ForEach sr (Suc m) msgs
            (replace_content_ForEach sr m 0 parts (?P (dm @ msg # msgs), ch))"
      using p by simp
    also have "replace_content_ForEach sr m 0 parts (?P (dm @ msg # msgs), ch)
        = (?P ((dm @ msg # msgs)[m := ?M ([] @ map ?f parts)]),
           ch \<or> list_ex (selected sr) parts)"
      using Cons.prems msg_eq by (intro replace_content_ForEach_eq) auto
    also have "(dm @ msg # msgs)[m := ?M ([] @ map ?f parts)]
        = (dm @ [?M (map ?f parts)]) @ msgs"
      using Cons.prems by (simp add: list_update_append)
    also have "replace_messages_ForEach sr (Suc m) msgs
         (?P ((dm @ [?M (map ?f parts)]) @ msgs), ch \<or> list_ex (selected sr) parts)
       = (?P ((dm @ [?M (map ?f parts)]) @ map (map_content ?f) msgs),
          (ch \<or> list_ex (selected sr) parts) \<or> ?any msgs)"
      using Cons.prems by (intro Cons.IH) simp
    finally show ?thesis using mc by simp
  qed
qed

text \<open>
  The loops of \<open>replaceThinkingBlocks\<close> compute the block-wise substitution; in
  particular no write of a block fails.
\<close>

lemma replaceThinkingBlocks_eq:
  "replaceThinkingBlocks payload sr
     = (map_blocks (substitute (selected sr)) payload,
        list_ex (selected sr) (content_blocks payload))"
proof (cases "IsArray (Get1 payload ''messages'')")
  case False
  then show ?thesis
    by (cases payload)
       (auto simp: replaceThinkingBlocks_def map_blocks_def content_blocks_def messages_of_def
                   parseUint_field_names
             split: option.splits json.splits)
next
  case True
  then obtain msgs where m: "Get1 payload ''messages'' = Some (JArray msgs)"
    by (auto simp: IsArray_iff)
  then obtain kvs where
    k: "payload = JObject kvs" "map_of kvs ''messages'' = Some (JArray msgs)"
    using Get1_messages_array by blast
  have "replaceThinkingBlocks payload sr
      = replace_messages_ForEach sr 0 msgs
          (JObject (set_first kvs ''messages'' (JArray ([] @ msgs))), False)"
    using k by (simp add: replaceThinkingBlocks_def set_first_same)
  also have "\<dots> = (JObject (set_first kvs ''messages''
              (JArray ([] @ map (map_content (substitute (selected sr))) msgs))),
            False \<or> list_ex (\<lambda>msg. list_ex (selected sr) (content_of msg)) msgs)"
    by (intro replace_messages_ForEach_eq) simp
  finally show ?thesis
    using k by (simp add: map_blocks_def content_blocks_def messages_of_def list_ex_iff)
qed

lemma replaceAntigravityThinkingBlocks_eq:
  "replaceAntigravityThinkingBlocks payload sr = replaceThinkingBlocks payload sr"
  by (simp add: replaceAntigravityThinkingBlocks_def replaceThinkingBlocks_def)

lemma content_of_map_content: "content_of (map_content f msg) = map f (content_of msg)"
  by (cases msg)
     (auto simp: content_of_def map_content_def map_of_set_first parseUint_field_names
           split: option.splits json.splits)

lemma messages_of_map_blocks:
  "messages_of (map_blocks f payload) = map (map_content f) (messages_of payload)"
  by (cases payload)
     (auto simp: messages_of_def map_blocks_def map_of_set_first parseUint_field_names
           split: option.splits json.splits)

lemma content_blocks_map_blocks:
  "content_blocks (map_blocks f payload) = map f (content_blocks payload)"
  by (simp add: content_blocks_def messages_of_map_blocks map_concat content_of_map_content
                comp_def)

lemma map_content_cong:
  "(\<And>part. part \<in> set (content_of msg) \<Longrightarrow> f part = g part) \<Longrightarrow>
   map_content f msg = map_content g msg"
  by (cases msg)
     (auto simp: content_of_def map_content_def split: option.splits json.splits cong: map_cong)

lemma map_content_id: "map_content (\<lambda>part. part) msg = msg"
  by (cases msg) (auto simp: map_content_def set_first_same split: option.splits json.splits)

lemma map_blocks_alt:
  "map_blocks f payload =
     (case payload of
        JObject kvs \<Rightarrow>
          (case map_of kvs ''messages'' of
             Some (JArray msgs) \<Rightarrow>
               JObject (set_first kvs ''messages''
                 (JArray (map (map_content f) (messages_of payload))))
           | _ \<Rightarrow> payload)
      | _ \<Rightarrow> payload)"
  by (auto simp: map_blocks_def messages_of_def split: option.splits json.splits)

lemma map_blocks_cong:
  assumes "\<And>part. part \<in> set (content_blocks payload) \<Longrightarrow> f part = g part"
  shows "map_blocks f payload = map_blocks g payload"
proof -
  have "map (map_content f) (messages_of payload) = map (map_content g) (messages_of payload)"
    using assms by (intro map_cong refl map_content_cong) (auto simp: content_blocks_def)
  then show ?thesis
    by (simp only: map_blocks_alt)
qed

lemma map_blocks_id: "map_blocks (\<lambda>part. part) payload = payload"
proof -
  have "map_content (\<lambda>part. part) = (\<lambda>msg. msg)"
    by (simp add: fun_eq_iff map_content_id)
  then show ?thesis
    by (cases payload)
       (auto simp: map_blocks_def set_first_same split: option.splits json.splits)
qed

lemma map_blocks_unchanged:
  "(\<And>part. part \<in> set (content_blocks payload) \<Longrightarrow> f part = part) \<Longrightarrow>
   map_blocks f payload = payload"
  using map_blocks_cong[of payload f "\<lambda>part. part"] by (simp add: map_blocks_id)

lemma map_content_comp:
  "map_content f (map_content g msg) = map_content (\<lambda>part. f (g part)) msg"
  by (cases msg)
     (auto simp: map_content_def map_of_set_first set_first_twice comp_def
           split: option.splits json.splits)

lemma map_blocks_comp:
  "map_blocks f (map_blocks g payload) = map_blocks (\<lambda>part. f (g part)) payload"
  by (cases payload)
     (auto simp: map_blocks_def map_of_set_first set_first_twice map_content_comp comp_def
           split: option.splits json.splits)

text \<open>What lies outside the content blocks stays: the other members of the payload and
  of each message.\<close>

lemma map_blocks_frame:
  "k \<noteq> ''messages'' \<Longrightarrow> Get1 (map_blocks f payload) k = Get1 payload k"
  by (cases payload)
     (auto simp: map_blocks_def map_of_set_first parseUint_field_names
           split: option.splits json.splits)

lemma map_content_frame:
  "k \<noteq> ''content'' \<Longrightarrow> Get1 (map_content f msg) k = Get1 msg k"
  by (cases msg)
     (auto simp: map_content_def map_of_set_first split: option.splits json.splits)

lemma placeholder_not_thinking: "\<not> is_thinking thinkingPlaceholder"
  by (simp add: is_thinking_def thinkingPlaceholder_def)

lemma selected_None: "selected None = is_thinking"
  by (auto simp: selected_def fun_eq_iff)

lemma selected_blacklist:
  "selected (Some (\<lambda>sig. sig \<noteq> [] \<and> IsInvalidSignature c sessionID sig now))
     = blacklisted_thinking c sessionID now"
  by (auto simp: selected_def blacklisted_thinking_def fun_eq_iff IsInvalidSignature_def)

lemma blacklisted_thinking_no_session: "\<not> blacklisted_thinking c [] now part"
  by (simp add: blacklisted_thinking_def IsInvalidSignature_def)

lemma sanitize_eq:
  "sanitizeClaudePayloadForInvalidThinking c now payload sessionID
     = (map_blocks (substitute (blacklisted_thinking c sessionID now)) payload,
        list_ex (blacklisted_thinking c sessionID now) (content_blocks payload))"
proof (cases "sessionID = []")
  case True
  then have "substitute (blacklisted_thinking c sessionID now) = (\<lambda>part. part)"
    by (simp add: substitute_def blacklisted_thinking_no_session fun_eq_iff)
  then show ?thesis using True
    by (simp add: sanitizeClaudePayloadForInvalidThinking_def map_blocks_id list_ex_iff
                  blacklisted_thinking_no_session)
next
  case False
  then show ?thesis
    by (simp add: sanitizeClaudePayloadForInvalidThinking_def replaceThinkingBlocks_eq
                  selected_blacklist)
qed

lemma sanitizeAntigravity_eq:
  "sanitizeAntigravityPayloadForInvalidThinking c now payload sessionID
     = sanitizeClaudePayloadForInvalidThinking c now payload sessionID"
  by (simp add: sanitizeAntigravityPayloadForInvalidThinking_def
                sanitizeClaudePayloadForInvalidThinking_def replaceAntigravityThinkingBlocks_eq)

lemma strip_eq:
  "stripClaudeThinkingBlocksForRetry payload
     = (map_blocks (substitute is_thinking) payload,
        list_ex is_thinking (content_blocks payload))"
  by (simp add: stripClaudeThinkingBlocksForRetry_def replaceThinkingBlocks_eq selected_None)

lemma stripAntigravity_eq:
  "stripAntigravityThinkingBlocksForRetry payload = stripClaudeThinkingBlocksForRetry payload"
  by (simp add: stripAntigravityThinkingBlocksForRetry_def stripClaudeThinkingBlocksForRetry_def
                replaceAntigravityThinkingBlocks_eq)

lemma strip_twice:
  "map_blocks (substitute is_thinking) (map_blocks (substitute is_thinking) payload)
     = map_blocks (substitute is_thinking) payload"
proof -
  have "substitute is_thinking (substitute is_thinking part) = substitute is_thinking part"
    for part
    using placeholder_not_thinking by (simp add: substitute_def)
  then show ?thesis by (simp add: map_blocks_comp)
qed

section \<open>The claims about the sanitizers\<close>

lemmas eval_blocks =
  map_blocks_def map_content_def content_blocks_def messages_of_def content_of_def
  substitute_def blacklisted_thinking_def is_thinking_def signature_of_def
  thinkingPlaceholder_def IsInvalidSignature_def CacheInvalidSignature_def
  getOrCreateInvalidSession_def InvalidSignatureCacheTTL_def

text \<open>
  Claim C5. Selective strip puts the placeholder, a text block with the text
  \<open>[Previous thinking omitted due to invalid signature]\<close>, in the place of exactly the
  content blocks of type \<open>thinking\<close> whose signature is blacklisted for the session,
  and leaves every other content block, the order of messages and blocks and the rest of
  the payload as they are (\<open>map_blocks\<close>: every member of the payload other than
  \<open>messages\<close> and every member of a message other than \<open>content\<close> reads as before, and
  the content of the \<open>i\<close>-th message is that of the input, block by block);
  \<open>changed\<close> tells whether some block was replaced. With an empty session token, or when no thinking block of the payload carries
  a blacklisted signature, the input comes back unchanged with \<open>changed = False\<close>. The
  Antigravity copy computes the same.
\<close>

theorem selective_strip_exact:
  "sanitizeClaudePayloadForInvalidThinking c now payload sessionID
     = (map_blocks (substitute (blacklisted_thinking c sessionID now)) payload,
        list_ex (blacklisted_thinking c sessionID now) (content_blocks payload))
   \<and> content_blocks (fst (sanitizeClaudePayloadForInvalidThinking c now payload sessionID))
     = map (\<lambda>part. if is_thinking part \<and> IsInvalidSignature c sessionID (signature_of part) now
                     then thinkingPlaceholder else part)
         (content_blocks payload)
   \<and> (sessionID = [] \<or> \<not> list_ex (blacklisted_thinking c sessionID now) (content_blocks payload)
        \<longrightarrow> sanitizeClaudePayloadForInvalidThinking c now payload sessionID = (payload, False))
   \<and> sanitizeAntigravityPayloadForInvalidThinking c now payload sessionID
     = sanitizeClaudePayloadForInvalidThinking c now payload sessionID
   \<and> thinkingPlaceholder
       = JObject [(''type'', JString ''text''),
                  (''text'', JString ''[Previous thinking omitted due to invalid signature]'')]
   \<and> (k \<noteq> ''messages'' \<longrightarrow>
        Get1 (fst (sanitizeClaudePayloadForInvalidThinking c now payload sessionID)) k
          = Get1 payload k)
   \<and> length (messages_of (fst (sanitizeClaudePayloadForInvalidThinking c now payload sessionID)))
     = length (messages_of payload)
   \<and> (i < length (messages_of payload) \<longrightarrow>
        content_of (messages_of
            (fst (sanitizeClaudePayloadForInvalidThinking c now payload sessionID)) ! i)
          = map (substitute (blacklisted_thinking c sessionID now))
              (content_of (messages_of payload ! i))
        \<and> (k \<noteq> ''content'' \<longrightarrow>
             Get1 (messages_of
                 (fst (sanitizeClaudePayloadForInvalidThinking c now payload sessionID)) ! i) k
               = Get1 (messages_of payload ! i) k))"
proof -
  let ?B = "blacklisted_thinking c sessionID now"
  have a: "sanitizeClaudePayloadForInvalidThinking c now payload sessionID
     = (map_blocks (substitute ?B) payload, list_ex ?B (content_blocks payload))"
    by (rule sanitize_eq)
  have b: "content_blocks (fst (sanitizeClaudePayloadForInvalidThinking c now payload sessionID))
     = map (\<lambda>part. if is_thinking part \<and> IsInvalidSignature c sessionID (signature_of part) now
                     then thinkingPlaceholder else part)
         (content_blocks payload)"
    by (simp add: a content_blocks_map_blocks substitute_def blacklisted_thinking_def)
  have c: "sessionID = [] \<or> \<not> list_ex ?B (content_blocks payload)
        \<longrightarrow> sanitizeClaudePayloadForInvalidThinking c now payload sessionID = (payload, False)"
  proof
    assume "sessionID = [] \<or> \<not> list_ex ?B (content_blocks payload)"
    then have n: "\<not> list_ex ?B (content_blocks payload)"
      by (auto simp: list_ex_iff blacklisted_thinking_no_session)
    then have "map_blocks (substitute ?B) payload = payload"
      by (intro map_blocks_unchanged) (auto simp: list_ex_iff substitute_def)
    then show "sanitizeClaudePayloadForInvalidThinking c now payload sessionID = (payload, False)"
      using n by (simp add: a)
  qed
  have d: "k \<noteq> ''messages'' \<longrightarrow>
        Get1 (fst (sanitizeClaudePayloadForInvalidThinking c now payload sessionID)) k
          = Get1 payload k"
    by (simp add: a map_blocks_frame)
  have e: "length (messages_of (fst (sanitizeClaudePayloadForInvalidThinking c now payload sessionID)))
     = length (messages_of payload)"
    by (simp add: a messages_of_map_blocks)
  have f: "i < length (messages_of payload) \<longrightarrow>
        content_of (messages_of
            (fst (sanitizeClaudePayloadForInvalidThinking c now payload sessionID)) ! i)
          = map (substitute ?B) (content_of (messages_of payload ! i))
        \<and> (k \<noteq> ''content'' \<longrightarrow>
             Get1 (messages_of
                 (fst (sanitizeClaudePayloadForInvalidThinking c now payload sessionID)) ! i) k
               = Get1 (messages_of payload ! i) k)"
    by (simp add: a messages_of_map_blocks content_of_map_content map_content_frame)
  show ?thesis
    by (intro conjI) (rule a, rule b, rule c, rule sanitizeAntigravity_eq,
                      rule thinkingPlaceholder_def, rule d, rule e, rule f)
qed

theorem selective_strip_exact_witness:
  "sanitizeClaudePayloadForInvalidThinking
     (CacheInvalidSignature fmempty ''session-1'' ''bad-signature'' 0) 1 test_payload ''session-1''
   = (JObject [(''messages'', JArray [
        JObject [(''role'', JString ''user''),
                 (''content'', JArray [JObject [(''type'', JString ''text''),
                                                (''text'', JString ''hello'')]])],
        JObject [(''role'', JString ''assistant''),
                 (''content'', JArray [
                    JObject [(''type'', JString ''text''),
                             (''text'', JString ''[Previous thinking omitted due to invalid signature]'')],
                    JObject [(''type'', JString ''thinking''),
                             (''thinking'', JString ''good thought''),
                             (''signature'', JString ''good-signature'')],
                    JObject [(''type'', JString ''text''),
                             (''text'', JString ''response'')]])]])], True)
   \<and> sanitizeClaudePayloadForInvalidThinking
       (CacheInvalidSignature fmempty ''session-1'' ''bad-signature'' 0) 1 test_payload ''session-2''
     = (test_payload, False)"
proof -
  let ?c = "CacheInvalidSignature fmempty ''session-1'' ''bad-signature'' 0"
  have h: "''session-2'' = [] \<or>
           \<not> list_ex (blacklisted_thinking ?c ''session-2'' 1) (content_blocks test_payload)"
    by (simp add: test_payload_def eval_blocks)
  have 1: "sanitizeClaudePayloadForInvalidThinking ?c 1 test_payload ''session-2''
             = (test_payload, False)"
    using selective_strip_exact[of ?c 1 test_payload "''session-2''"] h by blast
  have 2: "sanitizeClaudePayloadForInvalidThinking ?c 1 test_payload ''session-1''
     = (map_blocks (substitute (blacklisted_thinking ?c ''session-1'' 1)) test_payload,
        list_ex (blacklisted_thinking ?c ''session-1'' 1) (content_blocks test_payload))"
    using selective_strip_exact[of ?c 1 test_payload "''session-1''"] by blast
  show ?thesis
    unfolding 1 2 by (simp add: test_payload_def eval_blocks)
qed

text \<open>
  Claim C6. Full strip puts the placeholder in the place of every thinking block, whatever
  its signature and without reading the blacklist; \<open>changed\<close> is true exactly when the
  payload has a thinking block; and a second full strip returns the payload of the first,
  with nothing left to change.
\<close>

theorem full_strip_exact:
  "stripClaudeThinkingBlocksForRetry payload
     = (map_blocks (substitute is_thinking) payload,
        list_ex is_thinking (content_blocks payload))
   \<and> content_blocks (fst (stripClaudeThinkingBlocksForRetry payload))
     = map (\<lambda>part. if is_thinking part then thinkingPlaceholder else part)
         (content_blocks payload)
   \<and> snd (stripClaudeThinkingBlocksForRetry payload)
     = list_ex is_thinking (content_blocks payload)
   \<and> stripClaudeThinkingBlocksForRetry (fst (stripClaudeThinkingBlocksForRetry payload))
     = (fst (stripClaudeThinkingBlocksForRetry payload), False)
   \<and> stripAntigravityThinkingBlocksForRetry payload = stripClaudeThinkingBlocksForRetry payload"
proof -
  have a: "stripClaudeThinkingBlocksForRetry payload
     = (map_blocks (substitute is_thinking) payload,
        list_ex is_thinking (content_blocks payload))"
    by (rule strip_eq)
  have b: "content_blocks (fst (stripClaudeThinkingBlocksForRetry payload))
     = map (\<lambda>part. if is_thinking part then thinkingPlaceholder else part)
         (content_blocks payload)"
    by (simp add: a content_blocks_map_blocks substitute_def)
  have c: "snd (stripClaudeThinkingBlocksForRetry payload)
     = list_ex is_thinking (content_blocks payload)"
    by (simp add: a)
  have "\<not> list_ex is_thinking (content_blocks (map_blocks (substitute is_thinking) payload))"
    using placeholder_not_thinking
    by (auto simp: content_blocks_map_blocks list_ex_iff substitute_def)
  then have d: "stripClaudeThinkingBlocksForRetry (fst (stripClaudeThinkingBlocksForRetry payload))
     = (fst (stripClaudeThinkingBlocksForRetry payload), False)"
    by (simp add: strip_eq strip_twice)
  show ?thesis
    by (intro conjI) (rule a, rule b, rule c, rule d, rule stripAntigravity_eq)
qed

theorem full_strip_exact_witness:
  "stripClaudeThinkingBlocksForRetry test_payload
   = (JObject [(''messages'', JArray [
        JObject [(''role'', JString ''user''),
                 (''content'', JArray [JObject [(''type'', JString ''text''),
                                                (''text'', JString ''hello'')]])],
        JObject [(''role'', JString ''assistant''),
                 (''content'', JArray [
                    JObject [(''type'', JString ''text''),
                             (''text'', JString ''[Previous thinking omitted due to invalid signature]'')],
                    JObject [(''type'', JString ''text''),
                             (''text'', JString ''[Previous thinking omitted due to invalid signature]'')],
                    JObject [(''type'', JString ''text''),
                             (''text'', JString ''response'')]])]])], True)"
proof -
  have "stripClaudeThinkingBlocksForRetry test_payload
     = (map_blocks (substitute is_thinking) test_payload,
        list_ex is_thinking (content_blocks test_payload))"
    using full_strip_exact[of test_payload] by blast
  then show ?thesis
    by (simp add: test_payload_def eval_blocks)
qed

text \<open>
  What the sanitizers replace, block by block. Full strip replaces the blocks of type
  \<open>thinking\<close>; selective strip replaces those of them whose signature is blacklisted for
  the session. A block of another type, and under selective strip a block with an empty
  signature, comes back as it went in.
\<close>

lemma sanitizers_compare_with_thinking:
  "content_blocks (fst (stripClaudeThinkingBlocksForRetry payload))
     = map (substitute is_thinking) (content_blocks payload)
   \<and> content_blocks (fst (stripAntigravityThinkingBlocksForRetry payload))
     = map (substitute is_thinking) (content_blocks payload)
   \<and> content_blocks (fst (sanitizeClaudePayloadForInvalidThinking c now payload sessionID))
     = map (substitute (blacklisted_thinking c sessionID now)) (content_blocks payload)
   \<and> content_blocks (fst (sanitizeAntigravityPayloadForInvalidThinking c now payload sessionID))
     = map (substitute (blacklisted_thinking c sessionID now)) (content_blocks payload)
   \<and> (is_thinking part \<longrightarrow> substitute is_thinking part = thinkingPlaceholder)
   \<and> (String_of (Get1 part ''type'') \<noteq> ''thinking'' \<longrightarrow>
        substitute is_thinking part = part
        \<and> substitute (blacklisted_thinking c sessionID now) part = part)
   \<and> (signature_of part = [] \<longrightarrow> substitute (blacklisted_thinking c sessionID now) part = part)"
  by (simp add: strip_eq stripAntigravity_eq sanitize_eq sanitizeAntigravity_eq
        content_blocks_map_blocks substitute_def blacklisted_thinking_def is_thinking_def
        IsInvalidSignature_def)

text \<open>
  Claim C7 at a payload whose assistant message opens with a block of type
  \<open>redacted_thinking\<close>. The claim has full strip replace such a block with the
  placeholder, as does the plan of the feature
  (\<open>docs/done/thinking_error_handling_plan.md\<close>: blocks of type \<open>thinking\<close> and of type
  \<open>redacted_thinking\<close> are replaced by a block of type \<open>text\<close>), and the comment on
  \<open>stripClaudeThinkingBlocksForRetry\<close> announces the removal of all thinking blocks. Both
  full strips compare the type with \<open>thinking\<close> only: they hand the payload back as it
  went in, the \<open>redacted_thinking\<close> block still in place, with \<open>changed = False\<close>, so
  the retry carries the block again.
\<close>

theorem redacted_thinking_not_replaced:
  "stripClaudeThinkingBlocksForRetry redacted_payload = (redacted_payload, False)
   \<and> stripAntigravityThinkingBlocksForRetry redacted_payload = (redacted_payload, False)
   \<and> content_blocks redacted_payload
     = [JObject [(''type'', JString ''redacted_thinking''), (''data'', JString ''EmwKAhgB'')],
        JObject [(''type'', JString ''text''), (''text'', JString ''response'')]]"
  by (simp add: redacted_payload_def stripClaudeThinkingBlocksForRetry_def
        stripAntigravityThinkingBlocksForRetry_def replaceThinkingBlocks_def
        replaceAntigravityThinkingBlocks_def content_blocks_def messages_of_def content_of_def)

text \<open>
  Claim C10. When the member \<open>messages\<close> of the payload is missing or is not an array,
  selective strip and full strip, in the Claude and in the Antigravity copy, return the
  payload itself with \<open>changed = False\<close>. The sanitizers return a payload and a flag for
  every input; they have no error result.
\<close>

theorem sanitizers_keep_malformed_payload:
  assumes "\<not> IsArray (Get1 payload ''messages'')"
  shows "sanitizeClaudePayloadForInvalidThinking c now payload sessionID = (payload, False)
       \<and> stripClaudeThinkingBlocksForRetry payload = (payload, False)
       \<and> sanitizeAntigravityPayloadForInvalidThinking c now payload sessionID = (payload, False)
       \<and> stripAntigravityThinkingBlocksForRetry payload = (payload, False)"
  using assms
  by (simp add: sanitizeClaudePayloadForInvalidThinking_def stripClaudeThinkingBlocksForRetry_def
        sanitizeAntigravityPayloadForInvalidThinking_def
        stripAntigravityThinkingBlocksForRetry_def replaceThinkingBlocks_def
        replaceAntigravityThinkingBlocks_def)

theorem sanitizers_keep_malformed_payload_witness:
  "sanitizeClaudePayloadForInvalidThinking
     (CacheInvalidSignature fmempty ''s'' ''g'' 0) 1
     (JObject [(''model'', JString ''claude''), (''messages'', JString ''hello'')]) ''s''
   = (JObject [(''model'', JString ''claude''), (''messages'', JString ''hello'')], False)
   \<and> stripClaudeThinkingBlocksForRetry (JObject [(''model'', JString ''claude'')])
   = (JObject [(''model'', JString ''claude'')], False)
   \<and> stripAntigravityThinkingBlocksForRetry (JArray [])
   = (JArray [], False)"
proof -
  have 1: "\<not> IsArray (Get1 (JObject [(''model'', JString ''claude''),
                                      (''messages'', JString ''hello'')]) ''messages'')"
    by simp
  have 2: "\<not> IsArray (Get1 (JObject [(''model'', JString ''claude'')]) ''messages'')"
    by simp
  have 3: "\<not> IsArray (Get1 (JArray []) ''messages'')"
    by (simp add: parseUint_field_names)
  show ?thesis
    using sanitizers_keep_malformed_payload[OF 1, of "CacheInvalidSignature fmempty ''s'' ''g'' 0" 1 "''s''"]
          sanitizers_keep_malformed_payload[OF 2, of fmempty 0 "[]"]
          sanitizers_keep_malformed_payload[OF 3, of fmempty 0 "[]"]
    by simp
qed

section \<open>The streaming fallback\<close>



lemma BuildGeminiFinalOnlySSE_frames:
  "BuildGeminiFinalOnlySSE nonStreamResp [] = render_frame (Data nonStreamResp)"
  by (simp add: BuildGeminiFinalOnlySSE_def)



section \<open>The error classifiers\<close>

lemma classifiers_reject_other_status:
  "statusCode \<noteq> 400 \<Longrightarrow>
     \<not> isClaudeThinkingInvalidSignatureError parse statusCode body
   \<and> \<not> isAntigravityThinkingSignatureError parse statusCode body
   \<and> \<not> ShouldFallbackThinkingSignature parse Valid (Some \<lparr>StatusCode = statusCode, Error = e\<rparr>)"
  by (simp add: isClaudeThinkingInvalidSignatureError_def isAntigravityThinkingSignatureError_def
                ShouldFallbackThinkingSignature_def)

lemmas eval_text = ToLower_def to_lower_char_def

text \<open>
  Claim C1 at the error body that the provider sends, status 400 and the message
  \<open>messages.1.content.0: Invalid `signature` in `thinking` block\<close>. The message holds
  \<open>invalid\<close>, \<open>signature\<close> and \<open>thinking\<close>; the Antigravity classifier and the
  streaming fallback answer true, the Claude classifier answers false, since it asks for
  the contiguous phrase \<open>invalid signature\<close>.
\<close>

theorem claude_classifier_misses_backticks:
  "raw backtick_doc = backtick_body
   \<and> extractErrorMessage backtick_reading backtick_body
     = ''messages.1.content.0: Invalid `signature` in `thinking` block''
   \<and> containsThinkingSignaturePattern
       (ToLower (extractErrorMessage backtick_reading backtick_body))
   \<and> \<not> isClaudeThinkingInvalidSignatureError backtick_reading 400 backtick_body
   \<and> isAntigravityThinkingSignatureError backtick_reading 400 backtick_body
   \<and> ShouldFallbackThinkingSignature backtick_reading (\<lambda>text. True)
       (Some \<lparr>StatusCode = 400, Error = Some backtick_body\<rparr>)"
proof -
  let ?msg = "''messages.1.content.0: Invalid `signature` in `thinking` block''"
  let ?low = "''messages.1.content.0: invalid `signature` in `thinking` block''"
  have r: "raw backtick_doc = backtick_body"
    by (simp add: backtick_doc_def backtick_body_def quote_def)
  have m: "extractErrorMessage backtick_reading backtick_body = ?msg"
    by (simp add: extractErrorMessage_def backtick_reading_def backtick_doc_def)
  have am: "extractAntigravityErrorMessage backtick_reading backtick_body = ?msg"
    by (simp add: extractAntigravityErrorMessage_def backtick_reading_def backtick_doc_def)
  have l: "ToLower ?msg = ?low"
    by (simp add: eval_text)
  have c3: "containsThinkingSignaturePattern ?low"
    by (simp add: containsThinkingSignaturePattern_def)
  have c2: "\<not> Contains ?low ''invalid signature''"
    by simp
  have p: "containsThinkingSignaturePattern (ToLower (extractErrorMessage backtick_reading backtick_body))"
    unfolding m l by (rule c3)
  have cl: "\<not> isClaudeThinkingInvalidSignatureError backtick_reading 400 backtick_body"
    unfolding isClaudeThinkingInvalidSignatureError_def Let_def m l using c2 by simp
  have ag: "isAntigravityThinkingSignatureError backtick_reading 400 backtick_body"
    unfolding isAntigravityThinkingSignatureError_def Let_def am l
    using c3 by (simp add: containsThinkingSignaturePattern_def)
  have "containsThinkingSignaturePattern (ToLower backtick_body)"
    by (simp add: backtick_body_def eval_text containsThinkingSignaturePattern_def)
  moreover have "backtick_body \<noteq> []"
    by (simp add: backtick_body_def)
  ultimately have f: "ShouldFallbackThinkingSignature backtick_reading (\<lambda>text. True)
       (Some \<lparr>StatusCode = 400, Error = Some backtick_body\<rparr>)"
    by (simp add: ShouldFallbackThinkingSignature_def isThinkingSignatureErrorText_def)
  show ?thesis
    by (intro conjI) (rule r, rule m, rule p, rule cl, rule ag, rule f)
qed

section \<open>The session identifier\<close>

lemma content_fallback_is_dead:
  "String_of (Get1 msg ''content'') = [] \<Longrightarrow>
   String_of (Get (Some msg) [''content'', ''0'', ''text'']) = []"
proof -
  assume e: "String_of (Get1 msg ''content'') = []"
  have q: "quote s \<noteq> []" for s by (simp add: quote_def)
  show ?thesis
  proof (cases "Get1 msg ''content''")
    case None
    then show ?thesis by simp
  next
    case (Some v)
    then show ?thesis using e q
      by (cases v) (auto split: if_splits)
  qed
qed

lemma length_hex_byte: "length (hex_byte b) = 2"
  by (simp add: hex_byte_def)

lemma length_EncodeToString: "length (EncodeToString src) = 2 * length src"
  by (induction src) (simp_all add: EncodeToString_def length_hex_byte)

lemma deriveSessionID_range_length:
  "length (deriveSessionID_range Sum256 msgs) = 0 \<or> length (deriveSessionID_range Sum256 msgs) = 32"
  by (induction msgs) (auto simp: Let_def length_EncodeToString)

lemma deriveSessionID_fixed_size:
  "length (deriveSessionIDFromClaudeMessages Sum256 body) = 0
   \<or> length (deriveSessionIDFromClaudeMessages Sum256 body) = 32"
  using deriveSessionID_range_length
  by (simp add: deriveSessionIDFromClaudeMessages_def Let_def)

text \<open>
  Claim C8 at a first user message whose content is a structured array: the text digested
  is the raw JSON text of the whole content array, not the text \<open>hello\<close> of its first
  element (\<open>Result.String()\<close> of an array is its raw text, which is never empty, so the
  branch that reads \<open>content.0.text\<close> yields nothing: \<open>content_fallback_is_dead\<close>). A flat
  string content is digested as it is.
\<close>

theorem session_id_digests_raw_content_array:
  \<open>deriveSessionIDFromClaudeMessages Sum256
     (JObject [(''messages'', JArray [
        JObject [(''role'', JString ''user''),
                 (''content'', JArray [JObject [(''type'', JString ''text''),
                                                (''text'', JString ''hello'')]])]])])
   = EncodeToString (map (Sum256 ''[{"type":"text","text":"hello"}]'') [0..<16])
   \<and> deriveSessionIDFromClaudeMessages Sum256
     (JObject [(''messages'', JArray [
        JObject [(''role'', JString ''user''), (''content'', JString ''hello'')]])])
   = EncodeToString (map (Sum256 ''hello'') [0..<16])\<close>
  by (simp add: deriveSessionIDFromClaudeMessages_def quote_def del: upt.simps map_upt_Suc)


section \<open>Evaluating the examples\<close>

lemma EncodeToString_16_nonempty: "EncodeToString (map f [0..<16]) \<noteq> []"
  using length_EncodeToString[of "map f [0..<16]"] by auto

lemma stale_session:
  "deriveSessionIDFromClaudeMessages Sum256 stale_payload
     = EncodeToString (map (Sum256 ''hello'') [0..<16])"
  by (simp add: deriveSessionIDFromClaudeMessages_def stale_payload_def del: upt.simps map_upt_Suc)

lemma position_error_classified:
  "isAntigravityThinkingSignatureError no_document 400 position_error"
  "isClaudeThinkingInvalidSignatureError no_document 400 position_error"
  "extractAntigravityInvalidThinkingPath no_document position_error = (1, 0, True)"
  "extractInvalidThinkingPath no_document position_error = (1, 0, True)"
  by (simp_all add: isAntigravityThinkingSignatureError_def isClaudeThinkingInvalidSignatureError_def
        extractAntigravityErrorMessage_def extractErrorMessage_def no_document_def
        position_error_def eval_text extractAntigravityInvalidThinkingPath_def
        extractInvalidThinkingPath_def match_position_here_def is_digit_def digit_val_def
        parseInt_def Atoi_def MaxInt64_def)

lemma stale_pre_strip:
  assumes "sid \<noteq> []"
  shows "sanitizeAntigravityPayloadForInvalidThinking
           (CacheInvalidSignature fmempty sid ''bad-sig'' 0) 1 stale_payload sid
         = (stale_sent, True)"
  using assms
  by (simp add: sanitizeAntigravity_eq sanitize_eq stale_payload_def stale_sent_def eval_blocks)

lemma itoa_small: "itoa 0 = ''0''" "itoa 1 = ''1''" "itoa (Suc 0) = ''1''"
  by (simp_all add: itoa.simps digit_char_def)

lemma stale_signatures:
  "String_of (Get (Some stale_payload) [''messages'', ''1'', ''content'', ''0'', ''signature''])
     = ''bad-sig''"
  "String_of (Get (Some stale_sent) [''messages'', ''1'', ''content'', ''0'', ''signature''])
     = []"
  by (simp_all add: stale_payload_def stale_sent_def parseUint_def is_digit_def digit_val_def)


section \<open>The recovery wrappers\<close>

lemma handleAntigravity_not_classified:
  "\<not> isAntigravityThinkingSignatureError parse code msg \<Longrightarrow>
   handleAntigravityThinkingErrorRecovery parse c now sid payload msg code
     = \<lparr>rec_cache = c, rec_written = [], rec_newPayload = payload, rec_shouldRetry = False\<rparr>"
  by (simp add: handleAntigravityThinkingErrorRecovery_def)

lemma handleAntigravity_classified:
  assumes "isAntigravityThinkingSignatureError parse code msg"
  shows "rec_shouldRetry (handleAntigravityThinkingErrorRecovery parse c now sid payload msg code)
       \<and> length (rec_written (handleAntigravityThinkingErrorRecovery parse c now sid payload msg code)) \<le> 1
       \<and> rec_cache (handleAntigravityThinkingErrorRecovery parse c now sid payload msg code)
         = foldl (\<lambda>c g. CacheInvalidSignature c sid g now) c
             (rec_written (handleAntigravityThinkingErrorRecovery parse c now sid payload msg code))
       \<and> rec_newPayload (handleAntigravityThinkingErrorRecovery parse c now sid payload msg code)
         = (if rec_written (handleAntigravityThinkingErrorRecovery parse c now sid payload msg code) = []
            then fst (stripAntigravityThinkingBlocksForRetry payload)
            else fst (sanitizeAntigravityPayloadForInvalidThinking
                        (rec_cache (handleAntigravityThinkingErrorRecovery parse c now sid payload
                                      msg code))
                        now payload sid))"
  using assms
  by (auto simp: handleAntigravityThinkingErrorRecovery_def recordAntigravityInvalidSignature_def
                 Let_def
           split: prod.splits if_splits)

lemma handleThinking_not_classified:
  "\<not> isClaudeThinkingInvalidSignatureError parse code msg \<Longrightarrow>
   handleThinkingErrorRecovery parse c now sid payload msg code
     = \<lparr>rec_cache = c, rec_written = [], rec_newPayload = payload, rec_shouldRetry = False\<rparr>"
  by (simp add: handleThinkingErrorRecovery_def)

lemma handleThinking_classified:
  assumes "isClaudeThinkingInvalidSignatureError parse code msg"
  shows "rec_shouldRetry (handleThinkingErrorRecovery parse c now sid payload msg code)
       \<and> length (rec_written (handleThinkingErrorRecovery parse c now sid payload msg code)) \<le> 1
       \<and> rec_cache (handleThinkingErrorRecovery parse c now sid payload msg code)
         = foldl (\<lambda>c g. CacheInvalidSignature c sid g now) c
             (rec_written (handleThinkingErrorRecovery parse c now sid payload msg code))
       \<and> rec_newPayload (handleThinkingErrorRecovery parse c now sid payload msg code)
         = (if rec_written (handleThinkingErrorRecovery parse c now sid payload msg code) = []
            then fst (stripClaudeThinkingBlocksForRetry payload)
            else fst (sanitizeClaudePayloadForInvalidThinking
                        (rec_cache (handleThinkingErrorRecovery parse c now sid payload msg code))
                        now payload sid))"
  using assms
  by (auto simp: handleThinkingErrorRecovery_def recordInvalidThinkingSignatureFromError_def
                 Let_def
           split: prod.splits if_splits)

lemma wrapper_run:
  "(let original = (case OriginalRequest opts of Some orig \<Rightarrow> orig | None \<Rightarrow> Payload req);
        sessionID = deriveSessionIDFromClaudeMessages Sum256 original;
        r = executeClaudeNonStreamWithRecovery parse Sum256 exec c now now' req opts;
        answer = exec 0 (fst (hd (attempts r))) (snd (hd (attempts r)))
    in hd (attempts r) = first_request c now Sum256 req opts
     \<and> length (attempts r) \<le> 2
     \<and> length (blacklist_writes r) \<le> 1
     \<and> cache_end r
       = foldl (\<lambda>c g. CacheInvalidSignature c sessionID g now') c (blacklist_writes r)
     \<and> (if signature_error_Antigravity parse (snd answer)
         then length (attempts r) = 2
            \<and> returned r = exec 1 (fst (attempts r ! 1)) (snd (attempts r ! 1))
            \<and> Payload (fst (attempts r ! 1))
              = (if blacklist_writes r = []
                 then fst (stripAntigravityThinkingBlocksForRetry original)
                 else fst (sanitizeAntigravityPayloadForInvalidThinking (cache_end r) now'
                             original sessionID))
         else length (attempts r) = 1 \<and> returned r = answer \<and> blacklist_writes r = []))"
proof -
  obtain req1 opts1 where f: "first_request c now Sum256 req opts = (req1, opts1)"
    by (cases "first_request c now Sum256 req opts")
  obtain resp err where a: "exec 0 req1 opts1 = (resp, err)"
    by (cases "exec 0 req1 opts1")
  let ?orig = "case OriginalRequest opts of Some orig \<Rightarrow> orig | None \<Rightarrow> Payload req"
  let ?sid = "deriveSessionIDFromClaudeMessages Sum256 ?orig"
  show ?thesis
  proof (cases err)
    case None
    then show ?thesis using f a
      by (auto simp: executeClaudeNonStreamWithRecovery_def first_request_def Let_def
                     signature_error_Antigravity_def split: prod.splits if_splits)
  next
    case (Some e)
    show ?thesis
    proof (cases e)
      case (other_error x)
      then show ?thesis using f a Some
        by (auto simp: executeClaudeNonStreamWithRecovery_def first_request_def Let_def
                       signature_error_Antigravity_def split: prod.splits if_splits)
    next
      case (statusErr code msg)
      show ?thesis
      proof (cases "isAntigravityThinkingSignatureError parse code msg")
        case True
        note h = handleAntigravity_classified[OF True, of c now' ?sid ?orig]
        show ?thesis using f a Some statusErr True h
          by (auto simp: executeClaudeNonStreamWithRecovery_def first_request_def Let_def
                         signature_error_Antigravity_def split: prod.splits if_splits)
      next
        case False
        show ?thesis using f a Some statusErr False
          by (auto simp: executeClaudeNonStreamWithRecovery_def first_request_def Let_def
                         handleAntigravity_not_classified signature_error_Antigravity_def
                   split: prod.splits if_splits)
      qed
    qed
  qed
qed

lemma restore_body:
  "Response_Body resp = ReadCloser b None \<Longrightarrow> resp\<lparr>Response_Body := NopCloser_Reader b\<rparr> = resp"
  by (cases resp) (simp add: NopCloser_Reader_def)

lemma transport_run:
  "(let r = RoundTrip parse base t c now req;
        answer = base 0 req
    in hd (attempts r) = req
     \<and> length (attempts r) \<le> 2
     \<and> length (blacklist_writes r) \<le> 1
     \<and> cache_end r
       = foldl (\<lambda>c g. CacheInvalidSignature c (transport_sessionID t) g now) c
           (blacklist_writes r)
     \<and> (if isClaudeMessagesRequest req \<and> signature_error_Claude parse answer
         then length (attempts r) = 2
            \<and> returned r = base 1 (attempts r ! 1)
            \<and> map_option Request_Body (attempts r ! 1)
              = map_option
                  (\<lambda>rq. if blacklist_writes r = []
                        then fst (stripClaudeThinkingBlocksForRetry (transport_initialPayload t))
                        else fst (sanitizeClaudePayloadForInvalidThinking (cache_end r) now
                                    (transport_initialPayload t) (transport_sessionID t)))
                  req
         else attempts r = [req] \<and> blacklist_writes r = []
            \<and> returned r
              = (if isClaudeMessagesRequest req \<and> body_unreadable answer
                 then with_empty_body answer else answer)))"
proof (cases "isClaudeMessagesRequest req")
  case False
  then show ?thesis by (simp add: RoundTrip_def Let_def)
next
  case msgs: True
  show ?thesis
  proof (cases "base 0 req")
    case (Inl err)
    then show ?thesis using msgs
      by (simp add: RoundTrip_def Let_def signature_error_Claude_def body_unreadable_def)
  next
    case (Inr resp)
    obtain b readErr where body: "Response_Body resp = ReadCloser b readErr"
      by (cases "Response_Body resp")
    show ?thesis
    proof (cases "Response_StatusCode resp = 400")
      case other: False
      then have "\<not> isClaudeThinkingInvalidSignatureError parse (Response_StatusCode resp) b"
        by (simp add: isClaudeThinkingInvalidSignatureError_def)
      then show ?thesis using msgs Inr other body
        by (cases readErr)
           (simp_all add: RoundTrip_def Let_def signature_error_Claude_def body_unreadable_def)
    next
      case s: True
      show ?thesis
      proof (cases readErr)
        case (Some e)
        then show ?thesis using msgs Inr s body
          by (simp add: RoundTrip_def Let_def signature_error_Claude_def body_unreadable_def
                        with_empty_body_def)
      next
        case None
        note r = restore_body[of resp b] body[unfolded None]
        show ?thesis
        proof (cases "isClaudeThinkingInvalidSignatureError parse 400 b")
          case True
          note h = handleThinking_classified[OF True, of c now "transport_sessionID t"
                     "transport_initialPayload t"]
          show ?thesis using msgs Inr True h s body None
            by (cases req)
               (simp_all add: RoundTrip_def Let_def signature_error_Claude_def)
        next
          case False
          then show ?thesis using msgs Inr s body None r
            by (simp add: RoundTrip_def Let_def signature_error_Claude_def body_unreadable_def
                          handleThinking_not_classified)
        qed
      qed
    qed
  qed
qed

text \<open>
  Claim C3 says that a first response which is not a classified signature error is
  returned unchanged. On the Claude transport, a response with status 400 whose body
  breaks off while it is read is not classified, and comes back with an empty body in
  place of its own: one call, no write, but not the answer as it was received.
\<close>

theorem unreadable_body_counterexample:
  "isClaudeMessagesRequest messages_request
   \<and> \<not> signature_error_Claude no_document (answering_truncated 0 messages_request)
   \<and> attempts (RoundTrip no_document answering_truncated stale_transport fmempty 1
                 messages_request)
     = [messages_request]
   \<and> blacklist_writes (RoundTrip no_document answering_truncated stale_transport fmempty 1
                         messages_request)
     = []
   \<and> returned (RoundTrip no_document answering_truncated stale_transport fmempty 1
                 messages_request)
     = Inr \<lparr>Response_StatusCode = 400, Response_Body = ReadCloser [] None\<rparr>
   \<and> returned (RoundTrip no_document answering_truncated stale_transport fmempty 1
                 messages_request)
     \<noteq> answering_truncated 0 messages_request"
proof -
  have m: "isClaudeMessagesRequest messages_request"
    by (simp add: isClaudeMessagesRequest_def messages_request_def)
  have r: "RoundTrip no_document answering_truncated stale_transport fmempty 1 messages_request
         = \<lparr>returned = Inr \<lparr>Response_StatusCode = 400, Response_Body = ReadCloser [] None\<rparr>,
            cache_end = fmempty, attempts = [messages_request], blacklist_writes = []\<rparr>"
    using m by (simp add: RoundTrip_def answering_truncated_def truncated_400_def
                          NopCloser_Reader_def)
  show ?thesis
    using m
    by (simp add: r) (simp add: signature_error_Claude_def answering_truncated_def
                               truncated_400_def)
qed

text \<open>
  Claim C3, with the unreadable body set apart. Every run of a wrapper makes at most two
  calls upstream and writes at most one signature to the blacklist; the cache at the end
  is the cache at the start with the signatures written. The first call carries the
  request after the pre-attempt selective strip. When the first answer is not classified
  as a signature error (no error, an error that is no \<open>statusErr\<close>, a status other than
  400, a 400 whose message the classifier of the path rejects, or, on the Claude
  transport, a 400 whose body cannot be read), the run makes that one call and writes
  nothing; it returns the answer as it is, except that the Claude transport returns a 400
  whose body cannot be read with an empty body. When the first answer is classified, the
  run makes exactly one more call, with the corrected payload (the selective strip when a
  signature was recorded, the full strip otherwise), and returns the answer of that call,
  whatever it is.
\<close>

theorem at_most_one_retry:
  "(let original = (case OriginalRequest opts of Some orig \<Rightarrow> orig | None \<Rightarrow> Payload req);
        sessionID = deriveSessionIDFromClaudeMessages Sum256 original;
        r = executeClaudeNonStreamWithRecovery parse Sum256 exec c now now' req opts;
        answer = exec 0 (fst (hd (attempts r))) (snd (hd (attempts r)))
    in hd (attempts r) = first_request c now Sum256 req opts
     \<and> length (attempts r) \<le> 2
     \<and> length (blacklist_writes r) \<le> 1
     \<and> cache_end r
       = foldl (\<lambda>c g. CacheInvalidSignature c sessionID g now') c (blacklist_writes r)
     \<and> (if signature_error_Antigravity parse (snd answer)
         then length (attempts r) = 2
            \<and> returned r = exec 1 (fst (attempts r ! 1)) (snd (attempts r ! 1))
            \<and> Payload (fst (attempts r ! 1))
              = (if blacklist_writes r = []
                 then fst (stripAntigravityThinkingBlocksForRetry original)
                 else fst (sanitizeAntigravityPayloadForInvalidThinking (cache_end r) now'
                             original sessionID))
         else length (attempts r) = 1 \<and> returned r = answer \<and> blacklist_writes r = []))
   \<and> (let r = RoundTrip parse' base t c now req';
          answer = base 0 req'
      in hd (attempts r) = req'
       \<and> length (attempts r) \<le> 2
       \<and> length (blacklist_writes r) \<le> 1
       \<and> cache_end r
         = foldl (\<lambda>c g. CacheInvalidSignature c (transport_sessionID t) g now) c
             (blacklist_writes r)
       \<and> (if isClaudeMessagesRequest req' \<and> signature_error_Claude parse' answer
           then length (attempts r) = 2
              \<and> returned r = base 1 (attempts r ! 1)
              \<and> map_option Request_Body (attempts r ! 1)
                = map_option
                    (\<lambda>rq. if blacklist_writes r = []
                          then fst (stripClaudeThinkingBlocksForRetry (transport_initialPayload t))
                          else fst (sanitizeClaudePayloadForInvalidThinking (cache_end r) now
                                      (transport_initialPayload t) (transport_sessionID t)))
                    req'
           else attempts r = [req'] \<and> blacklist_writes r = []
              \<and> returned r
                = (if isClaudeMessagesRequest req' \<and> body_unreadable answer
                   then with_empty_body answer else answer)))"
  by (rule conjI[OF wrapper_run transport_run])

theorem at_most_one_retry_witness:
  "(let r = executeClaudeNonStreamWithRecovery no_document (\<lambda>text i. 0) rejecting_once
              fmempty 1 2 \<lparr>Payload = stale_payload\<rparr> \<lparr>OriginalRequest = None\<rparr>
    in length (attempts r) = 2 \<and> returned r = ((), None) \<and> length (blacklist_writes r) \<le> 1)
   \<and> (let r = RoundTrip no_document answering_ok stale_transport fmempty 1 messages_request
      in attempts r = [messages_request]
       \<and> returned r
         = Inr \<lparr>Response_StatusCode = 200, Response_Body = NopCloser_Reader ''ok''\<rparr>
       \<and> blacklist_writes r = [] \<and> cache_end r = fmempty)"
proof -
  have 1: "signature_error_Antigravity no_document (snd (rejecting_once 0 rq os))" for rq os
    by (simp add: signature_error_Antigravity_def rejecting_once_def position_error_classified)
  have 2: "\<not> signature_error_Claude no_document (answering_ok 0 rq)" for rq
    by (simp add: signature_error_Claude_def answering_ok_def NopCloser_Reader_def
          isClaudeThinkingInvalidSignatureError_def)
  have 3: "\<not> body_unreadable (answering_ok 0 rq)" for rq
    by (simp add: body_unreadable_def answering_ok_def)
  show ?thesis
    using at_most_one_retry[where parse = no_document and ?Sum256.0 = "\<lambda>text i. 0"
            and exec = rejecting_once and c = fmempty and now = 1 and now' = 2
            and req = "\<lparr>Payload = stale_payload\<rparr>" and opts = "\<lparr>OriginalRequest = None\<rparr>"
            and parse' = no_document and base = answering_ok
            and t = stale_transport and req' = messages_request]
    by (simp add: Let_def 1 2 3) (simp add: rejecting_once_def answering_ok_def)
qed


section \<open>The signature recorded by the Antigravity wrapper\<close>

text \<open>
  Claim C2 at a request whose block at \<open>messages.1.content.0\<close> carries a signature that
  is already blacklisted for the session. The payload sent on the first attempt has the
  placeholder there, without a signature. When the upstream rejects that position, the
  Antigravity wrapper writes \<open>bad-sig\<close> to the blacklist: it read the signature from the
  original payload, not from the payload it sent. The handler of the Claude path, given
  the payload sent, writes nothing.
\<close>

theorem recorded_signature_read_from_original_payload:
  "(let sessionID = deriveSessionIDFromClaudeMessages Sum256 stale_payload;
        c = CacheInvalidSignature fmempty sessionID ''bad-sig'' 0;
        r = executeClaudeNonStreamWithRecovery no_document Sum256 always_rejecting c 1 2
              \<lparr>Payload = stale_payload\<rparr> \<lparr>OriginalRequest = None\<rparr>;
        sent = Payload (fst (hd (attempts r)))
    in sent = stale_sent
     \<and> String_of (Get (Some sent) [''messages'', ''1'', ''content'', ''0'', ''signature'']) = []
     \<and> String_of (Get (Some stale_payload) [''messages'', ''1'', ''content'', ''0'', ''signature''])
       = ''bad-sig''
     \<and> blacklist_writes r = [''bad-sig'']
     \<and> rec_written (handleThinkingErrorRecovery no_document c 2 sessionID sent position_error 400)
       = [])"
proof -
  let ?sid = "EncodeToString (map (Sum256 ''hello'') [0..<16])"
  let ?c = "CacheInvalidSignature fmempty ?sid ''bad-sig'' 0"
  have n: "?sid \<noteq> []" by (rule EncodeToString_16_nonempty)
  have rec: "recordAntigravityInvalidSignature no_document ?c 2 ?sid stale_payload position_error
       = (CacheInvalidSignature ?c ?sid ''bad-sig'' 2, ''bad-sig'', True)"
    using n stale_signatures(1)
    by (simp add: recordAntigravityInvalidSignature_def position_error_classified Let_def
          itoa_small)
  have h: "rec_written (handleAntigravityThinkingErrorRecovery no_document ?c 2 ?sid stale_payload
              position_error 400) = [''bad-sig'']"
       "rec_shouldRetry (handleAntigravityThinkingErrorRecovery no_document ?c 2 ?sid stale_payload
              position_error 400)"
    by (simp_all add: handleAntigravityThinkingErrorRecovery_def position_error_classified rec)
  have rec': "recordInvalidThinkingSignatureFromError no_document ?c 2 ?sid stale_sent position_error
       = (?c, [], False)"
    using n stale_signatures(2)
    by (simp add: recordInvalidThinkingSignatureFromError_def position_error_classified Let_def
          itoa_small)
  have h': "rec_written (handleThinkingErrorRecovery no_document ?c 2 ?sid stale_sent
              position_error 400) = []"
    by (simp add: handleThinkingErrorRecovery_def position_error_classified rec')
  have r: "executeClaudeNonStreamWithRecovery no_document Sum256 always_rejecting ?c 1 2
              \<lparr>Payload = stale_payload\<rparr> \<lparr>OriginalRequest = None\<rparr>
         = \<lparr>returned = ((), Some (statusErr 400 position_error)),
            cache_end = rec_cache (handleAntigravityThinkingErrorRecovery no_document ?c 2 ?sid
                          stale_payload position_error 400),
            attempts = [(\<lparr>Payload = stale_sent\<rparr>, \<lparr>OriginalRequest = Some stale_sent\<rparr>),
                        (\<lparr>Payload = rec_newPayload (handleAntigravityThinkingErrorRecovery
                                       no_document ?c 2 ?sid stale_payload position_error 400)\<rparr>,
                         \<lparr>OriginalRequest = Some (rec_newPayload
                            (handleAntigravityThinkingErrorRecovery
                                       no_document ?c 2 ?sid stale_payload position_error 400))\<rparr>)],
            blacklist_writes = [''bad-sig'']\<rparr>"
    using n h
    by (simp add: executeClaudeNonStreamWithRecovery_def stale_session stale_pre_strip
          always_rejecting_def Let_def)
  show ?thesis
    unfolding Let_def stale_session r
    using stale_signatures h' by simp
qed


section \<open>The frames of the streaming fallback\<close>



end
